theory Spec2Isabelle
  imports Complex_Main "HOL-Library.Sublist" "HOL-Library.Multiset"
    "HOL-Library.List_Lexorder" "HOL-Library.Product_Lexorder"
begin

section \<open>Python values\<close>

text \<open>
  A Python \<open>str\<close> is a sequence of Unicode code points, so it is modelled as a list of
  natural numbers (one per code point). ASCII literals of the source are written
  \<open>str ''...''\<close>; the Thai literals are written as explicit code point lists.
\<close>

type_synonym ustring = "nat list"

definition str :: "string \<Rightarrow> ustring" where
  "str s = map of_char s"

text \<open>Exceptions of the source are values; each carries the message of the exception.\<close>

datatype py_error =
    ValueError ustring
  | KeyError ustring
  | IndexError ustring
  | TypeError ustring
  | ZeroDivisionError ustring
  | RequestException ustring
  | JSONDecodeError ustring
  | RecursionError ustring
  | OSError ustring

text \<open>
  \<open>str.isspace\<close> of one code point: the whitespace set of CPython
  (\<open>_PyUnicode_IsWhitespace\<close>), which \<open>strip()\<close> and \<open>split()\<close> without arguments use.
\<close>

definition isspace :: "nat \<Rightarrow> bool" where
  "isspace c \<longleftrightarrow>
     (9 \<le> c \<and> c \<le> 13) \<or> (28 \<le> c \<and> c \<le> 32) \<or> c = 133 \<or> c = 160 \<or> c = 5760 \<or>
     (8192 \<le> c \<and> c \<le> 8202) \<or> c = 8232 \<or> c = 8233 \<or> c = 8239 \<or> c = 8287 \<or> c = 12288"

definition strip :: "ustring \<Rightarrow> ustring" where
  "strip s = rev (dropWhile isspace (rev (dropWhile isspace s)))"

text \<open>\<open>s.split()\<close>: the maximal runs of non-whitespace, in order.\<close>

fun split_ws_aux :: "ustring \<Rightarrow> ustring \<Rightarrow> ustring list" where
  "split_ws_aux cur [] = (if cur = [] then [] else [cur])"
| "split_ws_aux cur (c # cs) =
     (if isspace c then (if cur = [] then split_ws_aux [] cs else cur # split_ws_aux [] cs)
      else split_ws_aux (cur @ [c]) cs)"

definition split_ws :: "ustring \<Rightarrow> ustring list" where
  "split_ws s = split_ws_aux [] s"

text \<open>\<open>s.split(sep)\<close> for a one-character separator: always at least one field.\<close>

fun split_sep_aux :: "nat \<Rightarrow> ustring \<Rightarrow> ustring \<Rightarrow> ustring list" where
  "split_sep_aux sep cur [] = [cur]"
| "split_sep_aux sep cur (c # cs) =
     (if c = sep then cur # split_sep_aux sep [] cs else split_sep_aux sep (cur @ [c]) cs)"

definition split_sep :: "nat \<Rightarrow> ustring \<Rightarrow> ustring list" where
  "split_sep sep s = split_sep_aux sep [] s"

definition startswith :: "ustring \<Rightarrow> ustring \<Rightarrow> bool" where
  "startswith s p \<longleftrightarrow> take (length p) s = p"

text \<open>\<open>sep.join(xs)\<close>.\<close>

fun join :: "ustring \<Rightarrow> ustring list \<Rightarrow> ustring" where
  "join sep [] = []"
| "join sep [x] = x"
| "join sep (x # y # ys) = x @ sep @ join sep (y # ys)"

text \<open>
  The decimal digits of one integer, most significant first.
\<close>

function digits :: "nat \<Rightarrow> ustring" where
  "digits n = (if n < 10 then [48 + n] else digits (n div 10) @ [48 + n mod 10])"
  by pat_completeness auto
termination
  by (relation "measure (\<lambda>n. n)") auto

declare digits.simps [simp del]

text \<open>
  CPython refuses to convert between \<open>int\<close> and \<open>str\<close> when more than
  \<open>sys.get_int_max_str_digits()\<close> decimal digits are involved; the default is 4300.
\<close>

definition int_max_str_digits :: nat where
  "int_max_str_digits = 4300"

text \<open>The sign and the decimal digits of an integer.\<close>

definition int_text :: "int \<Rightarrow> ustring" where
  "int_text i = (if i < 0 then 45 # digits (nat (- i)) else digits (nat i))"

text \<open>
  The messages of the two \<open>ValueError\<close>s of the limit, as CPython 3.11 words them: the
  one of \<open>int(s)\<close> names the number of digits of the literal, the one of \<open>str(n)\<close> does
  not.
\<close>

definition int_limit_message :: "nat \<Rightarrow> ustring" where
  "int_limit_message n =
     str ''Exceeds the limit (4300 digits) for integer string conversion: value has '' @
     digits n @
     str '' digits; use sys.set_int_max_str_digits() to increase the limit''"

definition str_limit_message :: ustring where
  "str_limit_message =
     str ''Exceeds the limit (4300 digits) for integer string conversion; use '' @
     str ''sys.set_int_max_str_digits() to increase the limit''"

text \<open>
  \<open>str(n)\<close> and \<open>f"{n}"\<close> for an integer: a sign and the decimal digits, or
  \<open>ValueError\<close> when there are more digits than the limit (the sign is not counted).
\<close>

definition str_of_int :: "int \<Rightarrow> py_error + ustring" where
  "str_of_int i =
     (let ds = digits (nat \<bar>i\<bar>) in
      if length ds > int_max_str_digits
      then Inl (ValueError str_limit_message)
      else Inr (if i < 0 then 45 # ds else ds))"

text \<open>
  \<open>int(s)\<close> for a string, as \<open>PyLong_FromUnicodeObject\<close> and \<open>PyLong_FromString\<close> do it.
  Code points from 127 on are first replaced: a Unicode whitespace by a space, a Unicode
  decimal digit by its ASCII digit, and the first code point that is neither ends the
  literal with an invalid character. Then ASCII whitespace (tab, line feed, vertical tab,
  form feed, carriage return, space: not the separators U+001C to U+001F) is skipped,
  one sign is allowed, and the run of digits and underscores that follows is scanned: it
  must start with a digit and underscores may only stand singly between two digits,
  otherwise the literal is invalid. A run with more digits than the limit (leading zeros
  counted, underscores not) raises the \<open>ValueError\<close> of the limit. After the run only
  whitespace may follow, otherwise the literal is invalid.

  The message of an invalid literal goes on, after the words given here, with a colon and
  the \<open>repr\<close> of the string; this tail is left out.

  The Unicode decimal digits come in runs of ten; \<open>decimal_zeros\<close> lists the code point of
  the zero of every run outside ASCII (Unicode 14.0, the database of CPython 3.11).
\<close>

definition isdigit :: "nat \<Rightarrow> bool" where
  "isdigit c \<longleftrightarrow> 48 \<le> c \<and> c \<le> 57"

definition decimal_zeros :: "nat list" where
  "decimal_zeros =
     [1632, 1776, 1984, 2406, 2534, 2662, 2790, 2918, 3046, 3174, 3302, 3430, 3558, 3664,
      3792, 3872, 4160, 4240, 6112, 6160, 6470, 6608, 6784, 6800, 6992, 7088, 7232, 7248,
      42528, 43216, 43264, 43472, 43504, 43600, 44016, 65296, 66720, 68912, 69734, 69872,
      69942, 70096, 70384, 70736, 70864, 71248, 71360, 71472, 71904, 72016, 72784, 73040,
      73120, 92768, 92864, 93008, 120782, 120792, 120802, 120812, 120822, 123200, 123632,
      125264, 130032]"

definition decimal_of :: "nat \<Rightarrow> nat option" where
  "decimal_of c =
     (if isdigit c then Some (c - 48)
      else (case filter (\<lambda>z. z \<le> c \<and> c < z + 10) decimal_zeros of
              [] \<Rightarrow> None
            | z # zs \<Rightarrow> Some (c - z)))"

definition int_isspace :: "nat \<Rightarrow> bool" where
  "int_isspace c \<longleftrightarrow> (9 \<le> c \<and> c \<le> 13) \<or> c = 32 \<or> (127 \<le> c \<and> isspace c)"

fun digits_ok :: "ustring \<Rightarrow> bool" where
  "digits_ok [] = False"
| "digits_ok [c] = (decimal_of c \<noteq> None)"
| "digits_ok (c # d # cs) =
     (if decimal_of c \<noteq> None
      then (if d = 95 then (cs \<noteq> [] \<and> digits_ok cs) else digits_ok (d # cs))
      else False)"

definition digits_value :: "ustring \<Rightarrow> nat" where
  "digits_value s =
     foldl (\<lambda>acc c. 10 * acc + (case decimal_of c of None \<Rightarrow> 0 | Some d \<Rightarrow> d)) 0
       (filter (\<lambda>c. c \<noteq> 95) s)"

definition invalid_literal_message :: ustring where
  "invalid_literal_message = str ''invalid literal for int() with base 10''"

definition int_of_str :: "ustring \<Rightarrow> py_error + int" where
  "int_of_str s =
     (let t = dropWhile int_isspace s;
          neg = (t \<noteq> [] \<and> hd t = 45);
          body = (if t \<noteq> [] \<and> (hd t = 45 \<or> hd t = 43) then tl t else t);
          run = takeWhile (\<lambda>c. decimal_of c \<noteq> None \<or> c = 95) body;
          rest = dropWhile int_isspace
                   (dropWhile (\<lambda>c. decimal_of c \<noteq> None \<or> c = 95) body);
          n = length (filter (\<lambda>c. c \<noteq> 95) run)
      in if \<not> digits_ok run then Inl (ValueError invalid_literal_message)
         else if n > int_max_str_digits then Inl (ValueError (int_limit_message n))
         else if rest \<noteq> [] then Inl (ValueError invalid_literal_message)
         else Inr (if neg then - int (digits_value run) else int (digits_value run)))"

section \<open>Formatting helpers (app/utils/formatting.py, TM.py)\<close>

text \<open>The Thai word of the label, followed by a space: the prefix of every formatted speaker.\<close>

definition speaker_prefix :: ustring where
  "speaker_prefix = [3588, 3609, 3614, 3641, 3604, 32]"

text \<open>
  \<^verbatim>\<open>
  def format_speaker(speaker: Optional[str]) -> str:
      if speaker and speaker.startswith('SPEAKER_'):
          num = int(speaker.split('_')[1]) + 1
          return f"<prefix>{num}"
      return speaker or "Unknown"
  \<close>
  Both \<open>int(...)\<close> and the formatting of \<open>num\<close> can raise \<open>ValueError\<close>.
\<close>

definition format_speaker :: "ustring option \<Rightarrow> py_error + ustring" where
  "format_speaker speaker =
     (case speaker of
        None \<Rightarrow> Inr (str ''Unknown'')
      | Some sp \<Rightarrow>
          if sp \<noteq> [] \<and> startswith sp (str ''SPEAKER_'')
          then (let parts = split_sep 95 sp in
                if length parts \<le> 1 then Inl (IndexError (str ''list index out of range''))
                else (case int_of_str (parts ! 1) of
                        Inl e \<Rightarrow> Inl e
                      | Inr n \<Rightarrow>
                          (case str_of_int (n + 1) of
                             Inl e \<Rightarrow> Inl e
                           | Inr num \<Rightarrow> Inr (speaker_prefix @ num))))
          else if sp = [] then Inr (str ''Unknown'') else Inr sp)"

text \<open>
  The other numbers of the summarizer are Python floats, modelled there as real numbers.
  \<open>x // y\<close> and \<open>x % y\<close> are floor division and its remainder (the sign of the divisor),
  \<open>int(x)\<close> truncates toward zero.
\<close>

definition floordiv :: "real \<Rightarrow> real \<Rightarrow> real" where
  "floordiv x y = of_int \<lfloor>x / y\<rfloor>"

definition pymod :: "real \<Rightarrow> real \<Rightarrow> real" where
  "pymod x y = x - y * of_int \<lfloor>x / y\<rfloor>"

definition int_of_real :: "real \<Rightarrow> int" where
  "int_of_real x = (if 0 \<le> x then \<lfloor>x\<rfloor> else \<lceil>x\<rceil>)"

section \<open>The aggregation pass of the pipeline (app/services/pipeline.py, TM.py)\<close>

text \<open>
  A Python \<open>dict\<close> is an association list with distinct keys in insertion order: storing
  under a present key keeps its position, storing under a new key appends it.
\<close>

definition dict_get :: "('k \<times> 'v) list \<Rightarrow> 'k \<Rightarrow> 'v \<Rightarrow> 'v" where
  "dict_get d k dflt = (case map_of d k of None \<Rightarrow> dflt | Some v \<Rightarrow> v)"

fun dict_set :: "('k \<times> 'v) list \<Rightarrow> 'k \<Rightarrow> 'v \<Rightarrow> ('k \<times> 'v) list" where
  "dict_set [] k v = [(k, v)]"
| "dict_set (p # d) k v = (if fst p = k then (k, v) # d else p # dict_set d k v)"

text \<open>
  A transcript segment as the pipeline reads it: \<open>segment['start']\<close>, \<open>segment['end']\<close>,
  \<open>segment.get('speaker')\<close> and \<open>segment.get('text', '')\<close>.

  The numbers are Python floats. Their type is the parameter \<open>'a\<close>, and the pass uses of
  it only \<open>0\<close>, \<open>+\<close> and \<open>-\<close>, about which nothing is assumed: whatever is proved of the
  pass holds for the rounding arithmetic of doubles as it does for exact numbers.
\<close>

record 'a segment =
  seg_start :: 'a
  seg_end :: 'a
  seg_speaker :: "ustring option"
  seg_text :: "ustring option"

record 'a agg_state =
  speakers_time :: "(ustring \<times> 'a) list"
  speakers_words :: "(ustring \<times> nat) list"
  transcript_lines :: "ustring list"

definition seg_text_or_empty :: "'a segment \<Rightarrow> ustring" where
  "seg_text_or_empty segment = (case seg_text segment of None \<Rightarrow> [] | Some t \<Rightarrow> t)"

text \<open>
  \<^verbatim>\<open>
  for segment in segments:
      speaker = format_speaker(segment.get('speaker'))
      duration = segment['end'] - segment['start']
      text = segment.get('text', '').strip()
      word_count = len(text.split())
      speakers_time[speaker] = speakers_time.get(speaker, 0) + duration
      speakers_words[speaker] = speakers_words.get(speaker, 0) + word_count
      transcript_lines.append(f"[{speaker}]: {text}")
  \<close>
  An exception of \<open>format_speaker\<close> leaves the loop and the whole of \<open>process\<close>.
\<close>

fun aggregate_loop ::
  "('a::{zero,plus,minus}) segment list \<Rightarrow> 'a agg_state \<Rightarrow> py_error + 'a agg_state" where
  "aggregate_loop [] st = Inr st"
| "aggregate_loop (segment # rest) st =
     (case format_speaker (seg_speaker segment) of
        Inl e \<Rightarrow> Inl e
      | Inr speaker \<Rightarrow>
          (let duration = seg_end segment - seg_start segment;
               text = strip (seg_text_or_empty segment);
               word_count = length (split_ws text)
           in aggregate_loop rest
                \<lparr>speakers_time =
                   dict_set (speakers_time st) speaker
                     (dict_get (speakers_time st) speaker 0 + duration),
                 speakers_words =
                   dict_set (speakers_words st) speaker
                     (dict_get (speakers_words st) speaker 0 + word_count),
                 transcript_lines =
                   transcript_lines st @ [str ''['' @ speaker @ str '']: '' @ text]\<rparr>))"

text \<open>The part of the output of \<open>process\<close> that the pass builds (\<open>full_transcript\<close>).\<close>

record 'a full_transcript =
  segments :: "'a segment list"
  transcript_with_speakers :: ustring
  speaking_time :: "(ustring \<times> 'a) list"
  word_count :: "(ustring \<times> nat) list"

text \<open>
  \<^verbatim>\<open>
  segments = sorted(result.get('segments', []), key=lambda x: x['start'])
  speakers_time = {}; speakers_words = {}; transcript_lines = []
  for segment in segments: ...
  transcript_with_speakers = "\n".join(transcript_lines)
  speaker_summary = {'speaking_time': speakers_time, 'word_count': speakers_words}
  \<close>
  \<open>sorted\<close> compares the start times with \<open><\<close> and is stable, as \<open>sort_key\<close> is. The
  order of the numbers is given by the parameter \<open>val\<close>, which maps a number to its value
  on the real line (every float that is not NaN has one).
\<close>

definition process_aggregate ::
  "('a \<Rightarrow> real) \<Rightarrow> ('a::{zero,plus,minus}) segment list \<Rightarrow> py_error + 'a full_transcript" where
  "process_aggregate val result_segments =
     (let sorted_segments = sort_key (\<lambda>x. val (seg_start x)) result_segments in
      case aggregate_loop sorted_segments
             \<lparr>speakers_time = [], speakers_words = [], transcript_lines = []\<rparr> of
        Inl e \<Rightarrow> Inl e
      | Inr st \<Rightarrow>
          Inr \<lparr>segments = sorted_segments,
               transcript_with_speakers = join [10] (transcript_lines st),
               speaking_time = speakers_time st,
               word_count = speakers_words st\<rparr>)"

text \<open>
  The vocabulary of the statements about the pass: whether \<open>format_speaker\<close> returns on
  the label of a segment, the formatted label, the duration, the number of words and the
  transcript line of a segment.
\<close>

definition label_ok :: "'a segment \<Rightarrow> bool" where
  "label_ok segment = (case format_speaker (seg_speaker segment) of Inl e \<Rightarrow> False | Inr l \<Rightarrow> True)"

definition label_of :: "'a segment \<Rightarrow> ustring" where
  "label_of segment = (case format_speaker (seg_speaker segment) of Inl e \<Rightarrow> [] | Inr l \<Rightarrow> l)"

definition duration_of :: "('a::minus) segment \<Rightarrow> 'a" where
  "duration_of segment = seg_end segment - seg_start segment"

definition words_of :: "'a segment \<Rightarrow> nat" where
  "words_of segment = length (split_ws (strip (seg_text_or_empty segment)))"

definition line_of :: "'a segment \<Rightarrow> ustring" where
  "line_of segment =
     str ''['' @ label_of segment @ str '']: '' @ strip (seg_text_or_empty segment)"

text \<open>
  A small transcript, out of start order, with an unlabelled segment and one without text;
  its numbers are real numbers.
\<close>

definition demo_a :: "real segment" where
  "demo_a = \<lparr>seg_start = 2, seg_end = 5, seg_speaker = Some (str ''SPEAKER_00''),
             seg_text = Some (str '' hello  world '')\<rparr>"

definition demo_b :: "real segment" where
  "demo_b = \<lparr>seg_start = 0, seg_end = 3 / 2, seg_speaker = None,
             seg_text = Some (str ''hi'')\<rparr>"

definition demo_c :: "real segment" where
  "demo_c = \<lparr>seg_start = 5, seg_end = 6, seg_speaker = Some (str ''SPEAKER_00''),
             seg_text = None\<rparr>"

definition demo_segments :: "real segment list" where
  "demo_segments = [demo_a, demo_b, demo_c]"

section \<open>Speaker percentages (SummaryModel.py, app/services/summarizer.py, print_results)\<close>

text \<open>Float division \<open>a / b\<close>: a zero divisor raises \<open>ZeroDivisionError\<close>.\<close>

definition truediv :: "real \<Rightarrow> real \<Rightarrow> py_error + real" where
  "truediv a b =
     (if b = 0 then Inl (ZeroDivisionError (str ''float division by zero'')) else Inr (a / b))"

text \<open>\<open>pct = (time_sec / total_time * 100) if total_time > 0 else 0\<close>, in both functions.\<close>

definition pct_of :: "real \<Rightarrow> real \<Rightarrow> py_error + real" where
  "pct_of time_sec total_time =
     (if total_time > 0
      then (case truediv time_sec total_time of Inl e \<Rightarrow> Inl e | Inr q \<Rightarrow> Inr (q * 100))
      else Inr 0)"

text \<open>
  The argument \<open>speaker_summary\<close> of \<open>summarize_with_diarization\<close>: a dictionary read with
  \<open>.get('speaking_time', {})\<close> and \<open>.get('word_count', {})\<close>, so either entry may be absent.
\<close>

record speaker_summary =
  ss_speaking_time :: "(ustring \<times> real) list option"
  ss_word_count :: "(ustring \<times> nat) list option"

text \<open>\<open>total_time = sum(speakers_time.values()) if speakers_time else 1\<close>.\<close>

definition total_time_of :: "(ustring \<times> real) list \<Rightarrow> real" where
  "total_time_of sp_time = (if sp_time \<noteq> [] then sum_list (map snd sp_time) else 1)"

text \<open>
  One entry of \<open>speaker_info_lines\<close>, kept as the values that the f-string interpolates
  (\<open>speaker\<close>, \<open>mins\<close>, \<open>secs\<close>, \<open>pct\<close>, \<open>words\<close>); rendering them to text cannot raise.
  The dictionaries \<open>speakers_time\<close> and \<open>speakers_words\<close> of the source are the variables
  \<open>sp_time\<close> and \<open>sp_words\<close> below.
\<close>

record speaker_line =
  sl_speaker :: ustring
  sl_mins :: int
  sl_secs :: int
  sl_pct :: real
  sl_words :: nat

text \<open>
  \<^verbatim>\<open>
  for speaker, time_sec in sorted(speakers_time.items(), key=lambda x: -x[1]):
      pct = (time_sec / total_time * 100) if total_time > 0 else 0
      words = speakers_words.get(speaker, 0)
      mins = int(time_sec // 60)
      secs = int(time_sec % 60)
      speaker_info_lines.append(...)
  \<close>
\<close>

fun speaker_info_loop ::
  "(ustring \<times> real) list \<Rightarrow> real \<Rightarrow> (ustring \<times> nat) list \<Rightarrow> py_error + speaker_line list" where
  "speaker_info_loop [] total_time sp_words = Inr []"
| "speaker_info_loop ((speaker, time_sec) # rest) total_time sp_words =
     (case pct_of time_sec total_time of
        Inl e \<Rightarrow> Inl e
      | Inr pct \<Rightarrow>
          (case speaker_info_loop rest total_time sp_words of
             Inl e \<Rightarrow> Inl e
           | Inr ls \<Rightarrow>
               Inr (\<lparr>sl_speaker = speaker,
                     sl_mins = int_of_real (floordiv time_sec 60),
                     sl_secs = int_of_real (pymod time_sec 60),
                     sl_pct = pct,
                     sl_words = dict_get sp_words speaker 0\<rparr> # ls)))"

definition speaker_info_lines :: "speaker_summary \<Rightarrow> py_error + speaker_line list" where
  "speaker_info_lines summary =
     (let sp_time = (case ss_speaking_time summary of None \<Rightarrow> [] | Some d \<Rightarrow> d);
          sp_words = (case ss_word_count summary of None \<Rightarrow> [] | Some d \<Rightarrow> d);
          total_time = total_time_of sp_time
      in speaker_info_loop (sort_key (\<lambda>x. - snd x) sp_time) total_time sp_words)"

text \<open>
  The speaker summary of \<open>print_results\<close>; each printed line is kept as
  \<open>(speaker, speaking_time, pct, words)\<close>.
  \<^verbatim>\<open>
  total_time = sum(speakers_time.values())
  for speaker, speaking_time in sorted(speakers_time.items()):
      pct = (speaking_time / total_time * 100) if total_time > 0 else 0
      words = speakers_words.get(speaker, 0)
      print(...)
  \<close>
\<close>

fun print_summary_loop ::
  "(ustring \<times> real) list \<Rightarrow> real \<Rightarrow> (ustring \<times> nat) list
     \<Rightarrow> py_error + (ustring \<times> real \<times> real \<times> nat) list" where
  "print_summary_loop [] total_time sp_words = Inr []"
| "print_summary_loop ((speaker, time_sec) # rest) total_time sp_words =
     (case pct_of time_sec total_time of
        Inl e \<Rightarrow> Inl e
      | Inr pct \<Rightarrow>
          (case print_summary_loop rest total_time sp_words of
             Inl e \<Rightarrow> Inl e
           | Inr ls \<Rightarrow>
               Inr ((speaker, time_sec, pct, dict_get sp_words speaker 0) # ls)))"

definition print_speaker_summary ::
  "real full_transcript \<Rightarrow> py_error + (ustring \<times> real \<times> real \<times> nat) list" where
  "print_speaker_summary ft =
     (let sp_time = speaking_time ft;
          sp_words = word_count ft;
          total_time = sum_list (map snd sp_time)
      in print_summary_loop (sort sp_time) total_time sp_words)"

section \<open>Meeting types and prompt selection (SummaryModel.py)\<close>

text \<open>
  One entry of \<open>MEETING_TYPES\<close>: the English name, the Thai name and the structure of the
  summary. The Thai texts are the code points of the literals of SummaryModel.py, lines
  15 to 26.
\<close>

record meeting_info =
  mt_name :: ustring
  mt_thai :: ustring
  mt_structure :: ustring

definition meeting_type_0 :: meeting_info where
  "meeting_type_0 =
     \<lparr>mt_name = str ''Auto-Detect'',
      mt_thai =
        [3605, 3619, 3623, 3592, 3592, 3633, 3610, 3629, 3633, 3605, 3650, 3609, 3617, 3633,
        3605, 3636],
      mt_structure =
        [3623, 3636, 3648, 3588, 3619, 3634, 3632, 3627, 3660, 3592, 3634, 3585, 3648, 3609,
        3639, 3657, 3629, 3627, 3634]\<rparr>"

definition meeting_type_1 :: meeting_info where
  "meeting_type_1 =
     \<lparr>mt_name = str ''Shareholder Meeting'',
      mt_thai =
        [3611, 3619, 3632, 3594, 3640, 3617, 3612, 3641, 3657, 3606, 3639, 3629, 3627, 3640,
        3657, 3609],
      mt_structure =
        [3623, 3634, 3619, 3632, 32, 8594, 32, 3617, 3605, 3636, 32, 8594, 32, 3648, 3591,
        3636, 3609, 3611, 3633, 3609, 3612, 3621, 32, 8594, 32, 3586, 3657, 3629, 3626,
        3619, 3640, 3611]\<rparr>"

definition meeting_type_2 :: meeting_info where
  "meeting_type_2 =
     \<lparr>mt_name = str ''Board Meeting'',
      mt_thai =
        [3611, 3619, 3632, 3594, 3640, 3617, 3588, 3603, 3632, 3585, 3619, 3619, 3617, 3585,
        3634, 3619],
      mt_structure =
        [3609, 3650, 3618, 3610, 3634, 3618, 32, 8594, 32, 3585, 3634, 3619, 3629, 3609,
        3640, 3617, 3633, 3605, 3636, 32, 8594, 32, 3617, 3605, 3636, 3588, 3603, 3632,
        3585, 3619, 3619, 3617, 3585, 3634, 3619]\<rparr>"

definition meeting_type_3 :: meeting_info where
  "meeting_type_3 =
     \<lparr>mt_name = str ''Planning Meeting'',
      mt_thai =
        [3611, 3619, 3632, 3594, 3640, 3617, 3623, 3634, 3591, 3649, 3612, 3609],
      mt_structure =
        [3648, 3611, 3657, 3634, 3627, 3617, 3634, 3618, 32, 8594, 32, 3649, 3612, 3609,
        3591, 3634, 3609, 32, 8594, 32, 3652, 3607, 3617, 3660, 3652, 3621, 3609, 3660, 32,
        8594, 32, 3612, 3641, 3657, 3619, 3633, 3610, 3612, 3636, 3604, 3594, 3629, 3610,
        32, 8594, 32, 3588, 3623, 3634, 3617, 3648, 3626, 3637, 3656, 3618, 3591]\<rparr>"

definition meeting_type_4 :: meeting_info where
  "meeting_type_4 =
     \<lparr>mt_name = str ''Progress Update'',
      mt_thai =
        [3619, 3634, 3618, 3591, 3634, 3609, 3588, 3623, 3634, 3617, 3588, 3639, 3610, 3627,
        3609, 3657, 3634],
      mt_structure =
        [3626, 3606, 3634, 3609, 3632, 3650, 3588, 3619, 3591, 3585, 3634, 3619, 32, 8594,
        32, 3588, 3623, 3634, 3617, 3588, 3639, 3610, 3627, 3609, 3657, 3634, 32, 8594, 32,
        3611, 3633, 3597, 3627, 3634, 32, 8594, 32, 3649, 3609, 3623, 3607, 3634, 3591,
        3649, 3585, 3657, 32, 8594, 32, 3591, 3634, 3609, 3606, 3633, 3604, 3652, 3611]\<rparr>"

definition meeting_type_5 :: meeting_info where
  "meeting_type_5 =
     \<lparr>mt_name = str ''Strategy Meeting'',
      mt_thai =
        [3611, 3619, 3632, 3594, 3640, 3617, 3648, 3594, 3636, 3591, 3585, 3621, 3618, 3640,
        3607, 3608, 3660],
      mt_structure =
        [3607, 3636, 3624, 3607, 3634, 3591, 3608, 3640, 3619, 3585, 3636, 3592, 32, 8594,
        32, 3585, 3634, 3619, 3623, 3636, 3648, 3588, 3619, 3634, 3632, 3627, 3660, 32,
        8594, 32, 3585, 3621, 3618, 3640, 3607, 3608, 3660, 32, 8594, 32, 65, 99, 116, 105,
        111, 110, 32, 80, 108, 97, 110]\<rparr>"

definition meeting_type_6 :: meeting_info where
  "meeting_type_6 =
     \<lparr>mt_name = str ''Incident Review'',
      mt_thai =
        [3611, 3619, 3632, 3594, 3640, 3617, 3649, 3585, 3657, 3652, 3586, 3611, 3633, 3597,
        3627, 3634],
      mt_structure =
        [3619, 3634, 3618, 3621, 3632, 3648, 3629, 3637, 3618, 3604, 3611, 3633, 3597, 3627,
        3634, 32, 8594, 32, 3626, 3634, 3648, 3627, 3605, 3640, 32, 8594, 32, 3612, 3621,
        3585, 3619, 3632, 3607, 3610, 32, 8594, 32, 3649, 3609, 3623, 3607, 3634, 3591,
        3649, 3585, 3657, 3652, 3586, 32, 8594, 32, 3585, 3634, 3619, 3611, 3657, 3629,
        3591, 3585, 3633, 3609]\<rparr>"

definition meeting_type_7 :: meeting_info where
  "meeting_type_7 =
     \<lparr>mt_name = str ''Client Meeting'',
      mt_thai =
        [3611, 3619, 3632, 3594, 3640, 3617, 3621, 3641, 3585, 3588, 3657, 3634],
      mt_structure =
        [3586, 3657, 3629, 3648, 3626, 3609, 3629, 32, 8594, 32, 70, 101, 101, 100, 98, 97,
        99, 107, 32, 8594, 32, 3586, 3657, 3629, 3605, 3585, 3621, 3591, 32, 8594, 32, 78,
        101, 120, 116, 32, 83, 116, 101, 112, 115]\<rparr>"

definition meeting_type_8 :: meeting_info where
  "meeting_type_8 =
     \<lparr>mt_name = str ''Workshop'',
      mt_thai =
        [3648, 3594, 3636, 3591, 3611, 3599, 3636, 3610, 3633, 3605, 3636, 3585, 3634, 3619],
      mt_structure =
        [3627, 3633, 3623, 3586, 3657, 3629, 32, 8594, 32, 3648, 3609, 3639, 3657, 3629,
        3627, 3634, 3626, 3635, 3588, 3633, 3597, 32, 8594, 32, 3610, 3607, 3648, 3619,
        3637, 3618, 3609, 32, 8594, 32, 65, 99, 116, 105, 111, 110, 32, 73, 116, 101, 109,
        115]\<rparr>"

definition meeting_type_9 :: meeting_info where
  "meeting_type_9 =
     \<lparr>mt_name = str ''Executive Meeting'',
      mt_thai =
        [3611, 3619, 3632, 3594, 3640, 3617, 3612, 3641, 3657, 3610, 3619, 3636, 3627, 3634,
        3619],
      mt_structure =
        [3611, 3619, 3632, 3648, 3604, 3655, 3609, 3626, 3635, 3588, 3633, 3597, 32, 8594,
        32, 3585, 3634, 3619, 3605, 3633, 3604, 3626, 3636, 3609, 3651, 3592, 32, 8594, 32,
        3617, 3605, 3636, 32, 8594, 32, 3612, 3641, 3657, 3619, 3633, 3610, 3612, 3636,
        3604, 3594, 3629, 3610]\<rparr>"

definition meeting_type_10 :: meeting_info where
  "meeting_type_10 =
     \<lparr>mt_name = str ''Team Meeting'',
      mt_thai =
        [3611, 3619, 3632, 3594, 3640, 3617, 3607, 3637, 3617, 3591, 3634, 3609],
      mt_structure =
        [3629, 3633, 3614, 3648, 3604, 3605, 3591, 3634, 3609, 32, 8594, 32, 3585, 3634,
        3619, 3617, 3629, 3610, 3627, 3617, 3634, 3618, 32, 8594, 32, 3611, 3633, 3597,
        3627, 3634, 32, 8594, 32, 3626, 3636, 3656, 3591, 3607, 3637, 3656, 3605, 3657,
        3629, 3591, 3607, 3635]\<rparr>"

definition meeting_type_11 :: meeting_info where
  "meeting_type_11 =
     \<lparr>mt_name = str ''General Meeting'',
      mt_thai =
        [3611, 3619, 3632, 3594, 3640, 3617, 3607, 3633, 3656, 3623, 3652, 3611],
      mt_structure =
        [3623, 3634, 3619, 3632, 32, 8594, 32, 3611, 3619, 3632, 3648, 3604, 3655, 3609,
        3627, 3634, 3619, 3639, 3629, 32, 8594, 32, 3586, 3657, 3629, 3648, 3626, 3609,
        3629, 3649, 3609, 3632, 32, 8594, 32, 3617, 3605, 3636]\<rparr>"

text \<open>The dictionary, in the order of its literal.\<close>

definition MEETING_TYPES :: "(int \<times> meeting_info) list" where
  "MEETING_TYPES =
     [(0, meeting_type_0),
      (1, meeting_type_1),
      (2, meeting_type_2),
      (3, meeting_type_3),
      (4, meeting_type_4),
      (5, meeting_type_5),
      (6, meeting_type_6),
      (7, meeting_type_7),
      (8, meeting_type_8),
      (9, meeting_type_9),
      (10, meeting_type_10),
      (11, meeting_type_11)]"

text \<open>
  The fixed texts of the two f-strings of \<open>get_meeting_type_prompt\<close>: the heading of the
  auto-detect prompt up to and including the table header, and the three fixed parts of
  the prompt of one type (before the Thai name, before the structure, and the closing
  instruction).
\<close>

definition auto_detect_heading :: ustring where
  "auto_detect_heading =
     [42, 42, 3586, 3633, 3657, 3609, 3605, 3629, 3609, 58, 42, 42, 10, 49, 46, 32, 3623,
     3636, 3648, 3588, 3619, 3634, 3632, 3627, 3660, 3586, 3657, 3629, 3617, 3641, 3621,
     3612, 3641, 3657, 3614, 3641, 3604, 3648, 3614, 3639, 3656, 3629, 3619, 3632, 3610,
     3640, 3610, 3607, 3610, 3634, 3607, 32, 40, 3611, 3619, 3632, 3608, 3634, 3609, 47,
     3612, 3641, 3657, 3609, 3635, 3648, 3626, 3609, 3629, 47, 3612, 3641, 3657, 3648, 3586,
     3657, 3634, 3619, 3656, 3623, 3617, 41, 10, 50, 46, 32, 3623, 3636, 3648, 3588, 3619,
     3634, 3632, 3627, 3660, 3648, 3609, 3639, 3657, 3629, 3627, 3634, 3648, 3614, 3639,
     3656, 3629, 3619, 3632, 3610, 3640, 3611, 3619, 3632, 3648, 3616, 3607, 3585, 3634,
     3619, 3611, 3619, 3632, 3594, 3640, 3617, 10, 51, 46, 32, 3626, 3619, 3640, 3611, 3605,
     3634, 3617, 3650, 3588, 3619, 3591, 3626, 3619, 3657, 3634, 3591, 3607, 3637, 3656,
     3648, 3627, 3617, 3634, 3632, 3626, 3617, 10, 10, 42, 42, 3611, 3619, 3632, 3648, 3616,
     3607, 3585, 3634, 3619, 3611, 3619, 3632, 3594, 3640, 3617, 58, 42, 42, 10, 124, 32,
     3611, 3619, 3632, 3648, 3616, 3607, 32, 124, 32, 3650, 3588, 3619, 3591, 3626, 3619,
     3657, 3634, 3591, 32, 124, 10, 124, 45, 45, 45, 45, 45, 45, 45, 45, 124, 45, 45, 45,
     45, 45, 45, 45, 45, 45, 45, 124, 10]"

definition type_label :: ustring where
  "type_label =
     [42, 42, 3611, 3619, 3632, 3648, 3616, 3607, 3585, 3634, 3619, 3611, 3619, 3632, 3594,
     3640, 3617, 58, 42, 42, 32]"

definition structure_label :: ustring where
  "structure_label =
     [42, 42, 3650, 3588, 3619, 3591, 3626, 3619, 3657, 3634, 3591, 3585, 3634, 3619, 3626,
     3619, 3640, 3611, 58, 42, 42, 32]"

definition closing_instruction :: ustring where
  "closing_instruction =
     [10, 10, 3626, 3619, 3640, 3611, 3648, 3609, 3639, 3657, 3629, 3627, 3634, 3605, 3634,
     3617, 3650, 3588, 3619, 3591, 3626, 3619, 3657, 3634, 3591, 3586, 3657, 3634, 3591,
     3605, 3657, 3609, 3629, 3618, 3656, 3634, 3591, 3621, 3632, 3648, 3629, 3637, 3618,
     3604]"

text \<open>\<open>d[k]\<close>: a missing key raises \<open>KeyError\<close>.\<close>

definition dict_getitem :: "(int \<times> 'v) list \<Rightarrow> int \<Rightarrow> py_error + 'v" where
  "dict_getitem d k = (case map_of d k of None \<Rightarrow> Inl (KeyError (int_text k)) | Some v \<Rightarrow> Inr v)"

text \<open>
  The two f-strings with their interpolations: one row of the table of the auto-detect
  prompt, and the prompt of one meeting type.
\<close>

definition table_row :: "meeting_info \<Rightarrow> ustring" where
  "table_row info = str ''| '' @ mt_name info @ str '' | '' @ mt_structure info @ str '' |''"

definition specific_prompt :: "meeting_info \<Rightarrow> ustring" where
  "specific_prompt info =
     type_label @ mt_thai info @ str '' ('' @ mt_name info @ str '')'' @ [10] @
     structure_label @ mt_structure info @ closing_instruction"

text \<open>
  \<^verbatim>\<open>
  def get_meeting_type_prompt(meeting_type_id: int) -> str:
      if meeting_type_id == 0:
          types_table = "\n".join([
              f"| {info['name']} | {info['structure']} |"
              for num, info in MEETING_TYPES.items() if num > 0
          ])
          return f"""<heading>{types_table}"""
      else:
          info = MEETING_TYPES.get(meeting_type_id, MEETING_TYPES[11])
          return f"""<prompt of info>"""
  \<close>
  The default \<open>MEETING_TYPES[11]\<close> is an argument of \<open>.get\<close>, so it is evaluated (and could
  raise) before the lookup.
\<close>

definition get_meeting_type_prompt :: "int \<Rightarrow> py_error + ustring" where
  "get_meeting_type_prompt meeting_type_id =
     (if meeting_type_id = 0
      then (let types_table =
                  join [10] (map (\<lambda>(num, info). table_row info)
                               (filter (\<lambda>(num, info). num > 0) MEETING_TYPES))
            in Inr (auto_detect_heading @ types_table))
      else (case dict_getitem MEETING_TYPES 11 of
              Inl e \<Rightarrow> Inl e
            | Inr dflt \<Rightarrow>
                (let info = dict_get MEETING_TYPES meeting_type_id dflt
                 in Inr (specific_prompt info))))"

text \<open>
  \<open>MEETING_TYPES.get(meeting_type_id, MEETING_TYPES[0])\<close>: the lookup of
  \<open>summarize_with_diarization\<close> (\<open>meeting_type_info\<close>) and of \<open>process\<close>
  (\<open>meeting_info\<close>).
\<close>

definition meeting_type_info :: "int \<Rightarrow> py_error + meeting_info" where
  "meeting_type_info meeting_type_id =
     (case dict_getitem MEETING_TYPES 0 of
        Inl e \<Rightarrow> Inl e
      | Inr dflt \<Rightarrow> Inr (dict_get MEETING_TYPES meeting_type_id dflt))"

section \<open>Prompt selection in app/services/summarizer.py\<close>

text \<open>
  The copy of \<open>get_meeting_type_prompt\<close> in app/services/summarizer.py has the same two
  branches. It reads \<open>MEETING_TYPES\<close> and \<open>get_meeting_focus_prompt\<close> from
  app/models/meeting.py, which is not among the sources, so both are parameters here:
  \<open>types\<close> is that dictionary (api.py reads \<open>name\<close>, \<open>thai\<close> and \<open>structure\<close> of every
  entry), and \<open>get_meeting_focus_prompt\<close> is the helper, with whatever it returns or
  raises. The heading, the row and the two labels are the same texts as in SummaryModel.py;
  the closing instruction differs.
  \<^verbatim>\<open>
      else:
          info = MEETING_TYPES.get(meeting_type_id, MEETING_TYPES[11])
          focus_prompt = get_meeting_focus_prompt(meeting_type_id)
          return f"""<label>{info['thai']} ({info['name']})
  <label>{info['structure']}

  {focus_prompt}

  <closing instruction>"""
  \<close>
\<close>

definition closing_instruction_app :: ustring where
  "closing_instruction_app =
     [10, 10, 3626, 3619, 3640, 3611, 3648, 3609, 3639, 3657, 3629, 3627, 3634, 3605, 3634,
     3617, 3650, 3588, 3619, 3591, 3626, 3619, 3657, 3634, 3591, 3586, 3657, 3634, 3591,
     3605, 3657, 3609, 32, 3650, 3604, 3618, 3648, 3609, 3657, 3609, 3588, 3623, 3634, 3617,
     3621, 3632, 3648, 3629, 3637, 3618, 3604, 3651, 3609, 3611, 3619, 3632, 3648, 3604,
     3655, 3609, 3627, 3633, 3623, 3651, 3592, 3627, 3621, 3633, 3585]"

definition get_meeting_type_prompt_app ::
  "(int \<times> meeting_info) list \<Rightarrow> (int \<Rightarrow> py_error + ustring) \<Rightarrow> int \<Rightarrow> py_error + ustring" where
  "get_meeting_type_prompt_app types get_meeting_focus_prompt meeting_type_id =
     (if meeting_type_id = 0
      then (let types_table =
                  join [10] (map (\<lambda>(num, info). table_row info)
                               (filter (\<lambda>(num, info). num > 0) types))
            in Inr (auto_detect_heading @ types_table))
      else (case dict_getitem types 11 of
              Inl e \<Rightarrow> Inl e
            | Inr dflt \<Rightarrow>
                (let info = dict_get types meeting_type_id dflt in
                 case get_meeting_focus_prompt meeting_type_id of
                   Inl e \<Rightarrow> Inl e
                 | Inr focus_prompt \<Rightarrow>
                     Inr (type_label @ mt_thai info @ str '' ('' @ mt_name info @ str '')'' @
                          [10] @ structure_label @ mt_structure info @ [10, 10] @
                          focus_prompt @ closing_instruction_app))))"


section \<open>summarize_with_diarization (SummaryModel.py, app/services/summarizer.py)\<close>

text \<open>A decoded JSON value, as \<open>response.json()\<close> returns it.\<close>

datatype json =
    JNull
  | JBool bool
  | JInt int
  | JFloat real
  | JString ustring
  | JArray "json list"
  | JObject "(ustring \<times> json) list"

text \<open>
  \<open>x[key]\<close> for a string key: only a dictionary can be indexed by a string; a missing key
  raises \<open>KeyError\<close>, every other kind of value raises \<open>TypeError\<close>.
\<close>

fun getitem_key :: "json \<Rightarrow> ustring \<Rightarrow> py_error + json" where
  "getitem_key (JObject kvs) k =
     (case map_of kvs k of None \<Rightarrow> Inl (KeyError ([39] @ k @ [39])) | Some v \<Rightarrow> Inr v)"
| "getitem_key (JArray xs) k =
     Inl (TypeError (str ''list indices must be integers or slices, not str''))"
| "getitem_key (JString s) k = Inl (TypeError (str ''string indices must be integers''))"
| "getitem_key JNull k = Inl (TypeError ([39] @ str ''NoneType'' @ [39] @ str '' object is not subscriptable''))"
| "getitem_key (JBool b) k = Inl (TypeError ([39] @ str ''bool'' @ [39] @ str '' object is not subscriptable''))"
| "getitem_key (JInt i) k = Inl (TypeError ([39] @ str ''int'' @ [39] @ str '' object is not subscriptable''))"
| "getitem_key (JFloat r) k = Inl (TypeError ([39] @ str ''float'' @ [39] @ str '' object is not subscriptable''))"

text \<open>
  \<open>x[0]\<close>: the first element of a list or string (\<open>IndexError\<close> when empty); on a
  dictionary decoded from JSON the integer 0 is never a key (\<open>KeyError\<close>); the other
  values raise \<open>TypeError\<close>.
\<close>

fun getitem_first :: "json \<Rightarrow> py_error + json" where
  "getitem_first (JArray []) = Inl (IndexError (str ''list index out of range''))"
| "getitem_first (JArray (x # xs)) = Inr x"
| "getitem_first (JString []) = Inl (IndexError (str ''string index out of range''))"
| "getitem_first (JString (c # cs)) = Inr (JString [c])"
| "getitem_first (JObject kvs) = Inl (KeyError (str ''0''))"
| "getitem_first JNull = Inl (TypeError ([39] @ str ''NoneType'' @ [39] @ str '' object is not subscriptable''))"
| "getitem_first (JBool b) = Inl (TypeError ([39] @ str ''bool'' @ [39] @ str '' object is not subscriptable''))"
| "getitem_first (JInt i) = Inl (TypeError ([39] @ str ''int'' @ [39] @ str '' object is not subscriptable''))"
| "getitem_first (JFloat r) = Inl (TypeError ([39] @ str ''float'' @ [39] @ str '' object is not subscriptable''))"

text \<open>\<open>result["choices"][0]["message"]["content"]\<close>, left to right.\<close>

definition response_content :: "json \<Rightarrow> py_error + json" where
  "response_content result =
     (case getitem_key result (str ''choices'') of
        Inl e \<Rightarrow> Inl e
      | Inr choices \<Rightarrow>
          (case getitem_first choices of
             Inl e \<Rightarrow> Inl e
           | Inr choice \<Rightarrow>
               (case getitem_key choice (str ''message'') of
                  Inl e \<Rightarrow> Inl e
                | Inr message \<Rightarrow> getitem_key message (str ''content''))))"

text \<open>
  What the three calls \<open>requests.post(...)\<close>, \<open>response.raise_for_status()\<close> and
  \<open>response.json()\<close> come to: one of them raises a \<open>RequestException\<close> (a connection
  error or timeout, an HTTP error status, a body that is not JSON: the \<open>JSONDecodeError\<close>
  of \<open>requests\<close> is a \<open>RequestException\<close>), each with its message, or the body is
  decoded.
\<close>

datatype http_outcome =
    PostFailed ustring
  | StatusError ustring
  | InvalidJson ustring
  | JsonBody json

text \<open>
  The payload of the request, kept as the values that the two f-strings interpolate into
  the fixed Thai text of the system and user messages.
\<close>

record summary_payload =
  pl_model :: ustring
  pl_instruction :: ustring
  pl_heading :: ustring
  pl_num_speakers :: nat
  pl_structure :: ustring
  pl_language :: ustring
  pl_speaker_info :: "speaker_line list"
  pl_transcript :: ustring

text \<open>The Thai word used as the heading when the type is auto-detected.\<close>

definition heading_auto :: ustring where
  "heading_auto = [3611, 3619, 3632, 3648, 3616, 3607]"

text \<open>
  \<open>summarize_with_diarization\<close>. \<open>api_key\<close> is the module constant \<open>NTC_API_KEY\<close>
  (\<open>os.getenv\<close>: \<open>None\<close> when unset), \<open>post\<close> is the gateway. The result is the value
  returned or the exception raised to the caller, and the list of requests issued.
  \<^verbatim>\<open>
  if not NTC_API_KEY:
      return "Error: NTC_API_KEY not found in environment variables"
  ... speaker_info_lines, meeting_type_instruction, meeting_type_info, payload ...
  try:
      response = requests.post(NTC_API_URL, headers=headers, json=payload, timeout=120)
      response.raise_for_status()
      result = response.json()
      return result["choices"][0]["message"]["content"]
  except requests.exceptions.RequestException as e:
      return f"Error calling NTC API: {str(e)}"
  except (KeyError, IndexError) as e:
      return f"Error parsing response: {str(e)}"
  \<close>
\<close>

definition summarize_with_diarization ::
  "ustring option \<Rightarrow> (summary_payload \<Rightarrow> http_outcome) \<Rightarrow> ustring \<Rightarrow> speaker_summary \<Rightarrow> int
     \<Rightarrow> ustring \<Rightarrow> (py_error + json) \<times> summary_payload list" where
  "summarize_with_diarization api_key post transcript summary meeting_type_id language =
     (if api_key = None \<or> api_key = Some []
      then (Inr (JString (str ''Error: NTC_API_KEY not found in environment variables'')), [])
      else
        (case speaker_info_lines summary of
           Inl e \<Rightarrow> (Inl e, [])
         | Inr lines \<Rightarrow>
             (case get_meeting_type_prompt meeting_type_id of
                Inl e \<Rightarrow> (Inl e, [])
              | Inr instruction \<Rightarrow>
                  (case meeting_type_info meeting_type_id of
                     Inl e \<Rightarrow> (Inl e, [])
                   | Inr info \<Rightarrow>
                       (let payload =
                              \<lparr>pl_model = str ''gpt-4o'',
                               pl_instruction = instruction,
                               pl_heading =
                                 (if meeting_type_id > 0 then mt_thai info else heading_auto),
                               pl_num_speakers =
                                 length (case ss_speaking_time summary of
                                           None \<Rightarrow> [] | Some d \<Rightarrow> d),
                               pl_structure = mt_structure info,
                               pl_language = language,
                               pl_speaker_info = lines,
                               pl_transcript = transcript\<rparr>
                        in (case post payload of
                              PostFailed m \<Rightarrow>
                                Inr (JString (str ''Error calling NTC API: '' @ m))
                            | StatusError m \<Rightarrow>
                                Inr (JString (str ''Error calling NTC API: '' @ m))
                            | InvalidJson m \<Rightarrow>
                                Inr (JString (str ''Error calling NTC API: '' @ m))
                            | JsonBody result \<Rightarrow>
                                (case response_content result of
                                   Inr content \<Rightarrow> Inr content
                                 | Inl (KeyError m) \<Rightarrow>
                                     Inr (JString (str ''Error parsing response: '' @ m))
                                 | Inl (IndexError m) \<Rightarrow>
                                     Inr (JString (str ''Error parsing response: '' @ m))
                                 | Inl e \<Rightarrow> Inl e),
                            [payload]))))))"

section \<open>The REST endpoint (api.py)\<close>

text \<open>
  \<open>s.lower()\<close> on the ASCII letters; the other code points are left as they are (CPython
  also lowers the capital letters of other scripts, none of which lowers to a letter of
  the allowed extensions).
\<close>

definition lower :: "ustring \<Rightarrow> ustring" where
  "lower s = map (\<lambda>c. if 65 \<le> c \<and> c \<le> 90 then c + 32 else c) s"

text \<open>\<open>s.rfind(c)\<close> for one character: the last index of \<open>c\<close>, or \<open>-1\<close>.\<close>

definition rfind :: "ustring \<Rightarrow> nat \<Rightarrow> int" where
  "rfind s c =
     (if c \<in> set s then int (length s) - 1 - int (length (takeWhile (\<lambda>x. x \<noteq> c) (rev s)))
      else - 1)"

text \<open>
  \<open>os.path.splitext\<close> of \<open>posixpath\<close> (separator \<open>/\<close>, extension separator \<open>.\<close>):
  \<^verbatim>\<open>
  sepIndex = p.rfind(sep)
  dotIndex = p.rfind(extsep)
  if dotIndex > sepIndex:
      filenameIndex = sepIndex + 1
      while filenameIndex < dotIndex:
          if p[filenameIndex:filenameIndex+1] != extsep:
              return p[:dotIndex], p[dotIndex:]
          filenameIndex += 1
  return p, p[:0]
  \<close>
  The loop scans \<open>p[filenameIndex:dotIndex]\<close> for a character that is not a dot.
\<close>

fun has_non_dot :: "ustring \<Rightarrow> bool" where
  "has_non_dot [] = False"
| "has_non_dot (c # cs) = (if c \<noteq> 46 then True else has_non_dot cs)"

definition splitext :: "ustring \<Rightarrow> ustring \<times> ustring" where
  "splitext p =
     (let sepIndex = rfind p 47;
          dotIndex = rfind p 46;
          filenameIndex = sepIndex + 1
      in if dotIndex > sepIndex \<and>
            has_non_dot (take (nat (dotIndex - filenameIndex)) (drop (nat filenameIndex) p))
         then (take (nat dotIndex) p, drop (nat dotIndex) p)
         else (p, []))"

definition allowed_extensions :: "ustring list" where
  "allowed_extensions =
     [str ''.mp3'', str ''.wav'', str ''.m4a'', str ''.flac'', str ''.ogg'', str ''.webm'',
      str ''.mp4'']"

text \<open>\<open>HTTPException(status_code, detail)\<close>.\<close>

datatype http_exception = HTTPException nat ustring

text \<open>The form of a request: the name of the uploaded file and the two form fields.\<close>

record upload_request =
  req_filename :: ustring
  req_meeting_type_id :: int
  req_speaker_names :: ustring

text \<open>
  \<open>os.path.join(a, b)\<close> of \<open>posixpath\<close>: an absolute \<open>b\<close> replaces \<open>a\<close>.
  \<^verbatim>\<open>
  if b.startswith(sep):
      path = b
  elif not path or path.endswith(sep):
      path += b
  else:
      path += sep + b
  \<close>
\<close>

definition path_join :: "ustring \<Rightarrow> ustring \<Rightarrow> ustring" where
  "path_join a b =
     (if startswith b [47] then b
      else if a = [] \<or> last a = 47 then a @ b
      else a @ [47] @ b)"

text \<open>
  What the handler attempts outside its own memory, in the order of the attempts:
  \<open>tempfile.mkdtemp()\<close>, writing the upload (\<open>open\<close> and \<open>shutil.copyfileobj\<close>), the
  pipeline (\<open>TranscribeSummaryPipeline()\<close>, \<open>pipeline.process\<close> and the construction of the
  response from its result), and \<open>shutil.rmtree\<close>.
\<close>

datatype effect = MakeTempDir | WriteUpload | RunPipeline | RemoveTempDir

text \<open>
  How a call of the handler ends: it returns a response, it raises an \<open>HTTPException\<close>
  (the framework answers with that status), or another exception leaves it (the framework
  answers with status 500, Internal Server Error).
\<close>

datatype 'r outcome = Response 'r | Raised http_exception | Unhandled py_error

text \<open>\<open>str(e)\<close> of an exception.\<close>

definition error_text :: "py_error \<Rightarrow> ustring" where
  "error_text e =
     (case e of ValueError m \<Rightarrow> m | KeyError m \<Rightarrow> m | IndexError m \<Rightarrow> m | TypeError m \<Rightarrow> m
      | ZeroDivisionError m \<Rightarrow> m | RequestException m \<Rightarrow> m | JSONDecodeError m \<Rightarrow> m
      | RecursionError m \<Rightarrow> m | OSError m \<Rightarrow> m)"

text \<open>
  The speaker names of the form. \<open>json_loads\<close> is \<open>json.loads\<close> of the standard library,
  a parameter: it returns a value or raises. The \<open>except\<close> clause catches
  \<open>json.JSONDecodeError\<close> and \<open>TypeError\<close> only; \<open>json.loads\<close> can also raise a plain
  \<open>ValueError\<close> (an integer literal of more than 4300 digits) or \<open>RecursionError\<close> (deep
  nesting), and these leave the handler.
  \<^verbatim>\<open>
  try:
      speaker_names_list = json.loads(speaker_names)
      if not isinstance(speaker_names_list, list):
          speaker_names_list = []
  except (json.JSONDecodeError, TypeError):
      speaker_names_list = []
  \<close>
\<close>

definition parse_speaker_names ::
  "(ustring \<Rightarrow> py_error + json) \<Rightarrow> ustring \<Rightarrow> py_error + json list" where
  "parse_speaker_names json_loads speaker_names =
     (case json_loads speaker_names of
        Inr (JArray speaker_names_list) \<Rightarrow> Inr speaker_names_list
      | Inr _ \<Rightarrow> Inr []
      | Inl (JSONDecodeError m) \<Rightarrow> Inr []
      | Inl (TypeError m) \<Rightarrow> Inr []
      | Inl e \<Rightarrow> Inl e)"

text \<open>
  The \<open>try\<close> block with its \<open>except Exception\<close> clause: every exception of writing the
  upload or of the pipeline becomes an \<open>HTTPException\<close> with status 500; when writing the
  upload fails the pipeline is not started.
  \<^verbatim>\<open>
  try:
      with open(temp_file, "wb") as buffer:
          shutil.copyfileobj(audio.file, buffer)
      pipeline = TranscribeSummaryPipeline()
      result = pipeline.process(temp_file, meeting_type_id=meeting_type_id,
                                speaker_names=speaker_names_list)
      return TranscribeSummarizeResponse(...)
  except Exception as e:
      raise HTTPException(status_code=500, detail=f"Processing error: {str(e)}")
  \<close>
\<close>

definition process_upload ::
  "(ustring \<Rightarrow> py_error + unit) \<Rightarrow> (ustring \<Rightarrow> int \<Rightarrow> json list \<Rightarrow> py_error + 'r) \<Rightarrow>
     ustring \<Rightarrow> int \<Rightarrow> json list \<Rightarrow> effect list \<times> 'r outcome" where
  "process_upload write_upload process temp_file meeting_type_id speaker_names_list =
     (case write_upload temp_file of
        Inl e \<Rightarrow>
          ([WriteUpload],
           Raised (HTTPException 500 (str ''Processing error: '' @ error_text e)))
      | Inr u \<Rightarrow>
          (case process temp_file meeting_type_id speaker_names_list of
             Inl e \<Rightarrow>
               ([WriteUpload, RunPipeline],
                Raised (HTTPException 500 (str ''Processing error: '' @ error_text e)))
           | Inr response \<Rightarrow> ([WriteUpload, RunPipeline], Response response)))"

text \<open>
  \<open>transcribe_summarize\<close>. The environment is given by parameters: \<open>json_loads\<close>;
  \<open>mkdtemp\<close>, the result of \<open>tempfile.mkdtemp()\<close>; \<open>write_upload\<close> and \<open>process\<close>, the two
  steps of the \<open>try\<close> block; \<open>path_exists\<close> and \<open>rmtree\<close>, the two calls of the \<open>finally\<close>
  clause, where an exception of \<open>shutil.rmtree\<close> replaces the outcome of the \<open>try\<close>
  statement. The result is the list of effects attempted and the way the call ends.
  \<^verbatim>\<open>
  if meeting_type_id < 0 or meeting_type_id > 11:
      raise HTTPException(status_code=400, detail="meeting_type_id must be between 0 and 11")
  ... speaker_names_list ...
  allowed_extensions = ['.mp3', '.wav', '.m4a', '.flac', '.ogg', '.webm', '.mp4']
  file_ext = os.path.splitext(audio.filename)[1].lower()
  if file_ext not in allowed_extensions:
      raise HTTPException(status_code=400,
          detail=f"Unsupported file type. Allowed: {', '.join(allowed_extensions)}")
  temp_dir = tempfile.mkdtemp()
  temp_file = os.path.join(temp_dir, audio.filename)
  try: ...
  except Exception as e: ...
  finally:
      if os.path.exists(temp_dir):
          shutil.rmtree(temp_dir)
  \<close>
\<close>

definition transcribe_summarize ::
  "(ustring \<Rightarrow> py_error + json) \<Rightarrow> (py_error + ustring) \<Rightarrow> (ustring \<Rightarrow> py_error + unit) \<Rightarrow>
     (ustring \<Rightarrow> int \<Rightarrow> json list \<Rightarrow> py_error + 'r) \<Rightarrow> (ustring \<Rightarrow> bool) \<Rightarrow>
     (ustring \<Rightarrow> py_error + unit) \<Rightarrow> upload_request \<Rightarrow> effect list \<times> 'r outcome" where
  "transcribe_summarize json_loads mkdtemp write_upload process path_exists rmtree req =
     (let meeting_type_id = req_meeting_type_id req in
      if meeting_type_id < 0 \<or> meeting_type_id > 11
      then ([], Raised (HTTPException 400 (str ''meeting_type_id must be between 0 and 11'')))
      else
        (case parse_speaker_names json_loads (req_speaker_names req) of
           Inl e \<Rightarrow> ([], Unhandled e)
         | Inr speaker_names_list \<Rightarrow>
             (let file_ext = lower (snd (splitext (req_filename req)))
              in if file_ext \<notin> set allowed_extensions
                 then ([], Raised (HTTPException 400
                                     (str ''Unsupported file type. Allowed: '' @
                                      join (str '', '') allowed_extensions)))
                 else
                   (case mkdtemp of
                      Inl e \<Rightarrow> ([MakeTempDir], Unhandled e)
                    | Inr temp_dir \<Rightarrow>
                        (let temp_file = path_join temp_dir (req_filename req);
                             (effects, result) =
                               process_upload write_upload process temp_file meeting_type_id
                                 speaker_names_list
                         in if path_exists temp_dir
                            then (case rmtree temp_dir of
                                    Inl e \<Rightarrow>
                                      (MakeTempDir # effects @ [RemoveTempDir], Unhandled e)
                                  | Inr u \<Rightarrow>
                                      (MakeTempDir # effects @ [RemoveTempDir], result))
                            else (MakeTempDir # effects, result))))))"

section \<open>Verified properties\<close>

subsection \<open>Strings and numerals\<close>

lemma split_sep_aux_none: "sep \<notin> set cs \<Longrightarrow> split_sep_aux sep cur cs = [cur @ cs]"
  by (induction cs arbitrary: cur) auto

lemma decimal_of_isdigit: "isdigit c \<Longrightarrow> decimal_of c = Some (c - 48)"
  by (simp add: decimal_of_def)

lemma isdigit_not_int_space: "isdigit c \<Longrightarrow> \<not> int_isspace c"
  by (auto simp: isdigit_def int_isspace_def)

lemma int_lstrip_digits:
  assumes "list_all isdigit ds"
  shows "dropWhile int_isspace ds = ds"
  using assms by (cases ds) (auto simp: isdigit_not_int_space)

lemma takeWhile_digits:
  assumes "list_all isdigit ds" "\<And>c. isdigit c \<Longrightarrow> P c"
  shows "takeWhile P ds = ds"
  using assms by (induction ds) auto

lemma dropWhile_digits:
  assumes "list_all isdigit ds" "\<And>c. isdigit c \<Longrightarrow> P c"
  shows "dropWhile P ds = []"
  using assms by (induction ds) auto

lemma digits_ok_all: "ds \<noteq> [] \<Longrightarrow> list_all isdigit ds \<Longrightarrow> digits_ok ds"
  by (induction ds rule: digits_ok.induct) (auto simp: decimal_of_isdigit isdigit_def)

lemma filter_underscore_digits: "list_all isdigit ds \<Longrightarrow> filter (\<lambda>c. c \<noteq> 95) ds = ds"
  by (induction ds) (auto simp: isdigit_def)

lemma int_of_str_digits:
  assumes "ds \<noteq> []" "list_all isdigit ds" "length ds \<le> int_max_str_digits"
  shows "int_of_str ds = Inr (int (digits_value ds))"
proof -
  obtain c cs where ds: "ds = c # cs" using assms(1) by (cases ds) auto
  then have "isdigit c" using assms(2) by simp
  then have h: "hd ds \<noteq> 45" "hd ds \<noteq> 43" using ds by (auto simp: isdigit_def)
  show ?thesis
    unfolding int_of_str_def int_lstrip_digits [OF assms(2)] Let_def
    using assms h
    by (simp add: takeWhile_digits dropWhile_digits decimal_of_isdigit digits_ok_all
                  filter_underscore_digits)
qed

lemma int_of_str_too_long:
  assumes "list_all isdigit ds" "length ds > int_max_str_digits"
  shows "int_of_str ds = Inl (ValueError (int_limit_message (length ds)))"
proof -
  have ne: "ds \<noteq> []" using assms(2) by auto
  then obtain c cs where ds: "ds = c # cs" by (cases ds) auto
  then have "isdigit c" using assms(1) by simp
  then have h: "hd ds \<noteq> 45" "hd ds \<noteq> 43" using ds by (auto simp: isdigit_def)
  show ?thesis
    unfolding int_of_str_def int_lstrip_digits [OF assms(1)] Let_def
    using assms h ne
    by (simp add: takeWhile_digits dropWhile_digits decimal_of_isdigit digits_ok_all
                  filter_underscore_digits)
qed

lemma digits_value_snoc:
  "isdigit c \<Longrightarrow> digits_value (s @ [c]) = 10 * digits_value s + (c - 48)"
  by (simp add: digits_value_def decimal_of_isdigit) (simp add: isdigit_def)

lemma digits_value_digits: "digits_value (digits k) = k"
proof (induction k rule: digits.induct)
  case (1 n)
  show ?case
  proof (cases "n < 10")
    case True
    then have "isdigit (48 + n)" by (simp add: isdigit_def)
    then show ?thesis
      using True digits_value_snoc [of "48 + n" "[]"]
      by (simp add: digits.simps [of n] digits_value_def)
  next
    case False
    with 1 have ih: "digits_value (digits (n div 10)) = n div 10" by simp
    have "n mod 10 < 10" by simp
    then have "isdigit (48 + n mod 10)" unfolding isdigit_def by linarith
    then have "digits_value (digits n) = 10 * digits_value (digits (n div 10)) + (48 + n mod 10 - 48)"
      using False by (simp add: digits.simps [of n] digits_value_snoc)
    then show ?thesis using ih by simp
  qed
qed

lemma digits_all_isdigit: "list_all isdigit (digits k)"
proof (induction k rule: digits.induct)
  case (1 n)
  show ?case
  proof (cases "n < 10")
    case True
    then show ?thesis by (simp add: digits.simps [of n] isdigit_def)
  next
    case False
    with 1 have a: "list_all isdigit (digits (n div 10))" by simp
    have "n mod 10 < 10" by simp
    then have b: "isdigit (48 + n mod 10)" unfolding isdigit_def by linarith
    show ?thesis using False a b by (simp add: digits.simps [of n])
  qed
qed

lemma digits_nonempty: "digits k \<noteq> []"
  by (subst digits.simps) simp

lemma length_digits_mono: "m \<le> n \<Longrightarrow> length (digits m) \<le> length (digits n)"
proof (induction n arbitrary: m rule: digits.induct)
  case (1 n)
  show ?case
  proof (cases "m < 10")
    case True
    have "1 \<le> length (digits n)" using digits_nonempty [of n] by (cases "digits n") auto
    then show ?thesis using True by (simp add: digits.simps [of m])
  next
    case False
    then have n10: "\<not> n < 10" using "1.prems" by simp
    have "m div 10 \<le> n div 10" using "1.prems" by (simp add: div_le_mono)
    then have "length (digits (m div 10)) \<le> length (digits (n div 10))"
      using "1.IH" [OF n10] by simp
    then show ?thesis using False n10 by (simp add: digits.simps [of m] digits.simps [of n])
  qed
qed

subsection \<open>format_speaker\<close>

lemma format_speaker_digits:
  assumes "ds \<noteq> []" "list_all isdigit ds" "length ds \<le> int_max_str_digits"
    and "length (digits (digits_value ds + 1)) \<le> int_max_str_digits"
  shows "format_speaker (Some (str ''SPEAKER_'' @ ds)) =
           Inr (speaker_prefix @ digits (digits_value ds + 1))"
proof -
  have n: "95 \<notin> set ds" using assms(2) by (auto simp: list_all_iff isdigit_def)
  have sp: "split_sep 95 (str ''SPEAKER_'' @ ds) = [str ''SPEAKER'', ds]"
    using n by (simp add: split_sep_def str_def split_sep_aux_none)
  have sw: "startswith (str ''SPEAKER_'' @ ds) (str ''SPEAKER_'')"
    by (simp add: startswith_def)
  have "nat \<bar>int (digits_value ds) + 1\<bar> = digits_value ds + 1" by simp
  then have so: "str_of_int (int (digits_value ds) + 1) = Inr (digits (digits_value ds + 1))"
    using assms(4) by (simp add: str_of_int_def Let_def)
  show ?thesis
    using assms(1)
    by (simp add: format_speaker_def sw sp int_of_str_digits [OF assms(1,2,3)] so
             del: split_sep_aux.simps)
qed

lemma format_speaker_too_long:
  assumes "list_all isdigit ds" "length ds > int_max_str_digits"
  shows "format_speaker (Some (str ''SPEAKER_'' @ ds)) =
           Inl (ValueError (int_limit_message (length ds)))"
proof -
  have n: "95 \<notin> set ds" using assms(1) by (auto simp: list_all_iff isdigit_def)
  have sp: "split_sep 95 (str ''SPEAKER_'' @ ds) = [str ''SPEAKER'', ds]"
    using n by (simp add: split_sep_def str_def split_sep_aux_none)
  have sw: "startswith (str ''SPEAKER_'' @ ds) (str ''SPEAKER_'')"
    by (simp add: startswith_def)
  have ne: "str ''SPEAKER_'' @ ds \<noteq> []" by (simp add: str_def)
  show ?thesis
    using ne
    by (simp add: format_speaker_def sw sp int_of_str_too_long [OF assms]
             del: split_sep_aux.simps)
qed

lemma format_speaker_thai_digit:
  "format_speaker (Some (str ''SPEAKER_'' @ [3667])) = Inr (speaker_prefix @ str ''4'')"
  by (simp add: format_speaker_def startswith_def split_sep_def int_of_str_def invalid_literal_message_def int_isspace_def
                isspace_def decimal_of_def decimal_zeros_def isdigit_def digits_value_def
                str_of_int_def int_max_str_digits_def digits.simps str_def Let_def)

lemma format_speaker_separator:
  "format_speaker (Some (str ''SPEAKER_'' @ [28, 53])) =
     Inl (ValueError (str ''invalid literal for int() with base 10''))"
  by (simp add: format_speaker_def startswith_def split_sep_def int_of_str_def invalid_literal_message_def int_isspace_def
                isspace_def decimal_of_def decimal_zeros_def isdigit_def str_def Let_def)

text \<open>
  C8 (as amended). \<open>format_speaker\<close> on a label \<open>SPEAKER_\<close> followed by a non-empty string
  of at most 4300 decimal digits (leading zeros allowed, as in the diarizer's
  \<open>SPEAKER_00\<close>) whose value \<open>k\<close> has a successor of at most 4300 digits returns the Thai
  word, a space and the decimal numeral of \<open>k + 1\<close>; in particular so does \<open>SPEAKER_\<close>
  followed by the numeral of \<open>k\<close>. \<open>None\<close> and the empty string give \<open>Unknown\<close>, and
  every other non-empty string that does not start with \<open>SPEAKER_\<close> is returned
  unchanged. In each of these cases the function returns a value (no exception), and
  being a function of its argument it is deterministic.
\<close>

theorem format_speaker_spec:
  "(ds \<noteq> [] \<and> list_all isdigit ds \<and> length ds \<le> 4300 \<and>
    length (digits (digits_value ds + 1)) \<le> 4300 \<longrightarrow>
      format_speaker (Some (str ''SPEAKER_'' @ ds)) =
        Inr (speaker_prefix @ digits (digits_value ds + 1))) \<and>
   (length (digits (k + 1)) \<le> 4300 \<longrightarrow>
      format_speaker (Some (str ''SPEAKER_'' @ digits k)) =
        Inr (speaker_prefix @ digits (k + 1))) \<and>
   format_speaker None = Inr (str ''Unknown'') \<and>
   format_speaker (Some []) = Inr (str ''Unknown'') \<and>
   (sp \<noteq> [] \<and> \<not> startswith sp (str ''SPEAKER_'') \<longrightarrow> format_speaker (Some sp) = Inr sp)"
proof -
  have a: "format_speaker (Some (str ''SPEAKER_'' @ digits k)) =
             Inr (speaker_prefix @ digits (k + 1))" if "length (digits (k + 1)) \<le> 4300"
  proof -
    have "length (digits k) \<le> length (digits (k + 1))" by (rule length_digits_mono) simp
    then have "length (digits k) \<le> int_max_str_digits"
      using that by (simp add: int_max_str_digits_def)
    then show ?thesis
      using format_speaker_digits [OF digits_nonempty digits_all_isdigit, of k] that
      by (simp add: digits_value_digits int_max_str_digits_def)
  qed
  have b: "format_speaker None = Inr (str ''Unknown'')"
    by (simp add: format_speaker_def)
  have c: "format_speaker (Some []) = Inr (str ''Unknown'')"
    by (simp add: format_speaker_def)
  have d: "sp \<noteq> [] \<and> \<not> startswith sp (str ''SPEAKER_'') \<longrightarrow> format_speaker (Some sp) = Inr sp"
    by (simp add: format_speaker_def)
  have e: "ds \<noteq> [] \<and> list_all isdigit ds \<and> length ds \<le> 4300 \<and>
    length (digits (digits_value ds + 1)) \<le> 4300 \<longrightarrow>
      format_speaker (Some (str ''SPEAKER_'' @ ds)) =
        Inr (speaker_prefix @ digits (digits_value ds + 1))"
    using format_speaker_digits [of ds] by (simp add: int_max_str_digits_def)
  show ?thesis using e a b c d by blast
qed

theorem format_speaker_spec_witness:
  "str ''00'' \<noteq> [] \<and> list_all isdigit (str ''00'') \<and> length (str ''00'') \<le> 4300 \<and>
   length (digits (digits_value (str ''00'') + 1)) \<le> 4300 \<and>
   format_speaker (Some (str ''SPEAKER_00'')) = Inr (speaker_prefix @ str ''1'') \<and>
   length (digits (41 + 1)) \<le> 4300 \<and>
   format_speaker (Some (str ''SPEAKER_41'')) = Inr (speaker_prefix @ str ''42'') \<and>
   str ''Bob'' \<noteq> [] \<and> \<not> startswith (str ''Bob'') (str ''SPEAKER_'') \<and>
   format_speaker (Some (str ''Bob'')) = Inr (str ''Bob'')"
proof -
  have v: "digits (digits_value (str ''00'') + 1) = str ''1''" "digits 41 = str ''41''"
    "digits (41 + 1) = str ''42''"
    by (simp_all add: digits_value_def decimal_of_def isdigit_def str_def digits.simps)
  have h1: "str ''00'' \<noteq> [] \<and> list_all isdigit (str ''00'') \<and> length (str ''00'') \<le> 4300 \<and>
   length (digits (digits_value (str ''00'') + 1)) \<le> 4300"
    unfolding v by (simp add: str_def isdigit_def)
  have h2: "str ''Bob'' \<noteq> [] \<and> \<not> startswith (str ''Bob'') (str ''SPEAKER_'')"
    by (simp add: str_def startswith_def)
  have h3: "length (digits (41 + 1)) \<le> 4300" unfolding v by (simp add: str_def)
  have e: "str ''SPEAKER_'' @ str ''00'' = str ''SPEAKER_00''"
    "str ''SPEAKER_'' @ str ''41'' = str ''SPEAKER_41''"
    by (simp_all add: str_def)
  show ?thesis
    using format_speaker_spec [of "str ''00''" 41 "str ''Bob''"] h1 h2 h3 v e by simp
qed

text \<open>
  C8 as stated, for every string \<open>SPEAKER_\<close> followed by a decimal number, fails: for a
  number of 4301 digits \<open>int\<close> raises \<open>ValueError\<close> (the limit of the conversion between
  \<open>str\<close> and \<open>int\<close>), so nothing is returned.
\<close>

theorem format_speaker_digit_limit_counterexample:
  "format_speaker (Some (str ''SPEAKER_'' @ replicate 4301 49)) =
     Inl (ValueError
            (str ''Exceeds the limit (4300 digits) for integer string conversion: '' @
             str ''value has 4301 digits; use sys.set_int_max_str_digits() to increase '' @
             str ''the limit''))"
proof -
  have a: "list_all isdigit (replicate 4301 49)" by (simp add: list_all_iff isdigit_def)
  have b: "length (replicate 4301 (49::nat)) > int_max_str_digits"
    by (simp add: int_max_str_digits_def)
  have c: "int_limit_message (length (replicate 4301 (49::nat))) =
             str ''Exceeds the limit (4300 digits) for integer string conversion: '' @
             str ''value has 4301 digits; use sys.set_int_max_str_digits() to increase '' @
             str ''the limit''"
    by (simp add: int_limit_message_def digits.simps str_def)
  show ?thesis using format_speaker_too_long [OF a b] unfolding c .
qed

subsection \<open>The aggregation pass\<close>

lemma map_of_dict_set: "map_of (dict_set d k v) = (map_of d)(k \<mapsto> v)"
  by (induction d) (auto simp: fun_eq_iff)

lemma keys_dict_set: "set (map fst (dict_set d k v)) = insert k (set (map fst d))"
  by (induction d) auto

lemma distinct_dict_set: "distinct (map fst d) \<Longrightarrow> distinct (map fst (dict_set d k v))"
  by (induction d) (auto simp: keys_dict_set [simplified])

lemma dict_set_nonempty: "dict_set d k v \<noteq> []"
  by (cases d) auto

lemma dict_get_dict_set:
  "dict_get (dict_set d k v) l dflt = (if l = k then v else dict_get d l dflt)"
  by (simp add: dict_get_def map_of_dict_set)

lemma format_speaker_label:
  "format_speaker (seg_speaker s) = Inr l \<Longrightarrow> label_of s = l \<and> label_ok s"
  by (simp add: label_of_def label_ok_def)

lemma aggregate_loop_total:
  "list_all label_ok segs \<Longrightarrow> \<exists>st'. aggregate_loop segs st = Inr st'"
  by (induction segs arbitrary: st) (auto simp: label_ok_def Let_def split: sum.splits)

lemma aggregate_loop_labels:
  "aggregate_loop segs st = Inr st' \<Longrightarrow> list_all label_ok segs"
  by (induction segs arbitrary: st) (auto simp: label_ok_def Let_def split: sum.splits)

lemma aggregate_loop_lines:
  "aggregate_loop segs st = Inr st' \<Longrightarrow>
     transcript_lines st' = transcript_lines st @ map line_of segs"
  by (induction segs arbitrary: st)
     (auto simp: Let_def line_of_def label_of_def split: sum.splits)

lemma filter_none: "\<not> (\<exists>s \<in> set xs. P s) \<Longrightarrow> filter P xs = []"
  by (induction xs) auto

lemma aggregate_loop_time:
  "aggregate_loop segs st = Inr st' \<Longrightarrow>
     map_of (speakers_time st') l =
       (if \<exists>s \<in> set segs. label_of s = l
        then Some (foldl (+) (dict_get (speakers_time st) l 0)
                     (map duration_of (filter (\<lambda>s. label_of s = l) segs)))
        else map_of (speakers_time st) l)"
proof (induction segs arbitrary: st)
  case Nil
  then show ?case by simp
next
  case (Cons x rest)
  from Cons.prems obtain sp where sp: "format_speaker (seg_speaker x) = Inr sp"
    by (auto split: sum.splits)
  then have lx: "label_of x = sp" by (simp add: label_of_def)
  define st1 where "st1 = \<lparr>speakers_time =
                   dict_set (speakers_time st) sp
                     (dict_get (speakers_time st) sp 0 + (seg_end x - seg_start x)),
                 speakers_words =
                   dict_set (speakers_words st) sp
                     (dict_get (speakers_words st) sp 0 + length (split_ws (strip (seg_text_or_empty x)))),
                 transcript_lines =
                   transcript_lines st @ [str ''['' @ sp @ str '']: '' @ strip (seg_text_or_empty x)]\<rparr>"
  have run: "aggregate_loop rest st1 = Inr st'"
    using Cons.prems sp by (simp add: Let_def st1_def)
  note ih = Cons.IH [OF run]
  have g: "dict_get (speakers_time st1) l 0 =
             (if l = sp then dict_get (speakers_time st) sp 0 + duration_of x
              else dict_get (speakers_time st) l 0)"
    by (simp add: st1_def dict_get_dict_set duration_of_def)
  have m: "map_of (speakers_time st1) l =
             (if l = sp then Some (dict_get (speakers_time st) sp 0 + duration_of x)
              else map_of (speakers_time st) l)"
    by (simp add: st1_def map_of_dict_set duration_of_def)
  show ?case
  proof (cases "l = sp")
    case True
    show ?thesis
    proof (cases "\<exists>s \<in> set rest. label_of s = l")
      case True
      then show ?thesis using ih g m lx \<open>l = sp\<close> by auto
    next
      case False
      then have "filter (\<lambda>s. label_of s = l) rest = []" by (rule filter_none)
      then show ?thesis using ih g m lx \<open>l = sp\<close> False by auto
    qed
  next
    case False
    then show ?thesis using ih g m lx by auto
  qed
qed

lemma aggregate_loop_words:
  "aggregate_loop segs st = Inr st' \<Longrightarrow>
     map_of (speakers_words st') l =
       (if \<exists>s \<in> set segs. label_of s = l
        then Some (dict_get (speakers_words st) l 0 +
                   sum_list (map words_of (filter (\<lambda>s. label_of s = l) segs)))
        else map_of (speakers_words st) l)"
proof (induction segs arbitrary: st)
  case Nil
  then show ?case by simp
next
  case (Cons x rest)
  from Cons.prems obtain sp where sp: "format_speaker (seg_speaker x) = Inr sp"
    by (auto split: sum.splits)
  then have lx: "label_of x = sp" by (simp add: label_of_def)
  define st1 where "st1 = \<lparr>speakers_time =
                   dict_set (speakers_time st) sp
                     (dict_get (speakers_time st) sp 0 + (seg_end x - seg_start x)),
                 speakers_words =
                   dict_set (speakers_words st) sp
                     (dict_get (speakers_words st) sp 0 + length (split_ws (strip (seg_text_or_empty x)))),
                 transcript_lines =
                   transcript_lines st @ [str ''['' @ sp @ str '']: '' @ strip (seg_text_or_empty x)]\<rparr>"
  have run: "aggregate_loop rest st1 = Inr st'"
    using Cons.prems sp by (simp add: Let_def st1_def)
  note ih = Cons.IH [OF run]
  have g: "dict_get (speakers_words st1) l 0 =
             (if l = sp then dict_get (speakers_words st) sp 0 + words_of x
              else dict_get (speakers_words st) l 0)"
    by (simp add: st1_def dict_get_dict_set words_of_def)
  have m: "map_of (speakers_words st1) l =
             (if l = sp then Some (dict_get (speakers_words st) sp 0 + words_of x)
              else map_of (speakers_words st) l)"
    by (simp add: st1_def map_of_dict_set words_of_def)
  show ?case
  proof (cases "l = sp")
    case True
    then show ?thesis using ih g m lx by (auto simp: add.assoc)
  next
    case False
    then show ?thesis using ih g m lx by auto
  qed
qed

lemma keys_dict_set_cong:
  "map fst d1 = map fst d2 \<Longrightarrow> map fst (dict_set d1 k v) = map fst (dict_set d2 k w)"
proof (induction d1 arbitrary: d2)
  case Nil
  then show ?case by simp
next
  case (Cons p d1)
  then obtain q d2' where d2: "d2 = q # d2'" by (cases d2) auto
  with Cons.prems have "fst p = fst q" "map fst d1 = map fst d2'" by auto
  then show ?case using Cons.IH [of d2'] d2 by auto
qed

lemma aggregate_loop_keys:
  "aggregate_loop segs st = Inr st' \<Longrightarrow> map fst (speakers_time st) = map fst (speakers_words st)
     \<Longrightarrow> map fst (speakers_time st') = map fst (speakers_words st')"
proof (induction segs arbitrary: st)
  case Nil
  then show ?case by simp
next
  case (Cons x rest)
  from Cons.prems(1) obtain sp where sp: "format_speaker (seg_speaker x) = Inr sp"
    by (auto split: sum.splits)
  show ?case
    using Cons.prems sp
    by (auto simp: Let_def intro!: Cons.IH keys_dict_set_cong)
qed

lemma aggregate_loop_distinct:
  "aggregate_loop segs st = Inr st' \<Longrightarrow> distinct (map fst (speakers_time st))
     \<Longrightarrow> distinct (map fst (speakers_time st'))"
proof (induction segs arbitrary: st)
  case Nil
  then show ?case by simp
next
  case (Cons x rest)
  from Cons.prems(1) obtain sp where sp: "format_speaker (seg_speaker x) = Inr sp"
    by (auto split: sum.splits)
  show ?case
    using Cons.prems sp
    by (auto simp: Let_def intro!: Cons.IH distinct_dict_set)
qed

lemma sum_list_filter_perm:
  fixes f :: "'a \<Rightarrow> 'b::comm_monoid_add"
  assumes "mset xs = mset ys"
  shows "sum_list (map f (filter P xs)) = sum_list (map f (filter P ys))"
proof -
  have "mset (map f (filter P xs)) = mset (map f (filter P ys))"
    using assms by (metis mset_filter mset_map)
  then show ?thesis by (metis sum_mset_sum_list)
qed

lemma process_aggregate_result:
  assumes "list_all label_ok segs"
  shows "\<exists>st. aggregate_loop (sort_key (\<lambda>x. val (seg_start x)) segs)
               \<lparr>speakers_time = [], speakers_words = [], transcript_lines = []\<rparr> = Inr st \<and>
             process_aggregate val segs =
               Inr \<lparr>segments = sort_key (\<lambda>x. val (seg_start x)) segs,
                    transcript_with_speakers = join [10] (transcript_lines st),
                    speaking_time = speakers_time st,
                    word_count = speakers_words st\<rparr>"
proof -
  have "list_all label_ok (sort_key (\<lambda>x. val (seg_start x)) segs)"
    using assms by (simp add: list_all_iff)
  from aggregate_loop_total [OF this] obtain st where
    "aggregate_loop (sort_key (\<lambda>x. val (seg_start x)) segs)
       \<lparr>speakers_time = [], speakers_words = [], transcript_lines = []\<rparr> = Inr st" by blast
  then show ?thesis by (simp add: process_aggregate_def)
qed

lemma fs00: "format_speaker (Some (str ''SPEAKER_00'')) = Inr (speaker_prefix @ str ''1'')"
proof -
  have "str ''SPEAKER_00'' = str ''SPEAKER_'' @ str ''00''" by (simp add: str_def)
  moreover have "str ''00'' \<noteq> []" "list_all isdigit (str ''00'')"
    "length (str ''00'') \<le> int_max_str_digits"
    by (simp_all add: str_def isdigit_def int_max_str_digits_def)
  moreover have d: "digits (digits_value (str ''00'') + 1) = str ''1''"
    by (simp add: digits_value_def decimal_of_def isdigit_def str_def digits.simps)
  moreover have "length (digits (digits_value (str ''00'') + 1)) \<le> int_max_str_digits"
    unfolding d by (simp add: str_def int_max_str_digits_def)
  ultimately show ?thesis using format_speaker_digits [of "str ''00''"] by simp
qed

lemma format_speaker_empty_number:
  "format_speaker (Some (str ''SPEAKER_'')) =
     Inl (ValueError (str ''invalid literal for int() with base 10''))"
  by (simp add: format_speaker_def startswith_def split_sep_def int_of_str_def invalid_literal_message_def str_def Let_def)

lemma format_speaker_letter:
  "format_speaker (Some (str ''SPEAKER_A'')) =
     Inl (ValueError (str ''invalid literal for int() with base 10''))"
  by (simp add: format_speaker_def startswith_def split_sep_def int_of_str_def invalid_literal_message_def int_isspace_def
                isspace_def decimal_of_def decimal_zeros_def isdigit_def str_def Let_def)

lemma demo_labels:
  "map label_of demo_segments = [speaker_prefix @ str ''1'', str ''Unknown'', speaker_prefix @ str ''1'']"
  "list_all label_ok demo_segments"
proof -
  have n: "format_speaker None = Inr (str ''Unknown'')" by (simp add: format_speaker_def)
  show "map label_of demo_segments =
          [speaker_prefix @ str ''1'', str ''Unknown'', speaker_prefix @ str ''1'']"
    by (simp add: demo_segments_def demo_a_def demo_b_def demo_c_def label_of_def fs00 n)
  show "list_all label_ok demo_segments"
    by (simp add: demo_segments_def demo_a_def demo_b_def demo_c_def label_ok_def fs00 n)
qed

lemma demo_sorted: "sort_key (\<lambda>x. seg_start x) demo_segments = [demo_b, demo_a, demo_c]"
  by (simp add: demo_segments_def demo_a_def demo_b_def demo_c_def)

lemma demo_words: "map words_of demo_segments = [2, 1, 0]"
  by (simp add: demo_segments_def demo_a_def demo_b_def demo_c_def words_of_def seg_text_or_empty_def strip_def split_ws_def str_def isspace_def)

lemma demo_durations: "map duration_of demo_segments = [3, 3 / 2, 1]"
  by (simp add: demo_segments_def demo_a_def demo_b_def demo_c_def duration_of_def)

text \<open>
  C1 (as amended). For every list of transcript segments on whose speaker labels
  \<open>format_speaker\<close> returns, the aggregation pass returns a summary in which
  \<open>speaking_time\<close> maps each formatted speaker label to the sum of \<open>end - start\<close> over
  exactly the segments with that formatted label, added up from 0 in the order of their
  start times in the arithmetic of the numbers (for floats: with their rounding),
  \<open>word_count\<close> maps it to the sum of the whitespace-split word counts of those segments'
  stripped texts, no other label is a key, and a segment without a speaker label counts
  under \<open>Unknown\<close>.
\<close>

theorem aggregation_sums:
  assumes "list_all label_ok segs"
  shows "\<exists>out. process_aggregate val segs = Inr out \<and>
           distinct (map fst (speaking_time out)) \<and>
           distinct (map fst (word_count out)) \<and>
           (\<forall>l. map_of (speaking_time out) l =
                  (if \<exists>s \<in> set segs. label_of s = l
                   then Some (foldl (+) 0
                                (map duration_of
                                   (filter (\<lambda>s. label_of s = l)
                                      (sort_key (\<lambda>x. val (seg_start x)) segs))))
                   else None)) \<and>
           (\<forall>l. map_of (word_count out) l =
                  (if \<exists>s \<in> set segs. label_of s = l
                   then Some (sum_list (map words_of (filter (\<lambda>s. label_of s = l) segs)))
                   else None)) \<and>
           (\<forall>s \<in> set segs. seg_speaker s = None \<longrightarrow> label_of s = str ''Unknown'')"
proof -
  let ?init = "\<lparr>speakers_time = [], speakers_words = [], transcript_lines = []\<rparr>"
  let ?sorted = "sort_key (\<lambda>x. val (seg_start x)) segs"
  from process_aggregate_result [OF assms, of val] obtain st where
    run: "aggregate_loop ?sorted ?init = Inr st" and
    out: "process_aggregate val segs =
            Inr \<lparr>segments = ?sorted,
                 transcript_with_speakers = join [10] (transcript_lines st),
                 speaking_time = speakers_time st,
                 word_count = speakers_words st\<rparr>"
    by blast
  have perm: "mset ?sorted = mset segs" by simp
  have d1: "distinct (map fst (speakers_time st))"
    using aggregate_loop_distinct [OF run] by simp
  have k: "map fst (speakers_time st) = map fst (speakers_words st)"
    using aggregate_loop_keys [OF run] by simp
  have d2: "distinct (map fst (speakers_words st))"
    using d1 k by simp
  have t: "map_of (speakers_time st) l =
             (if \<exists>s \<in> set segs. label_of s = l
              then Some (foldl (+) 0
                           (map duration_of (filter (\<lambda>s. label_of s = l) ?sorted)))
              else None)" for l
    using aggregate_loop_time [OF run, of l] by (simp add: dict_get_def)
  have w: "map_of (speakers_words st) l =
             (if \<exists>s \<in> set segs. label_of s = l
              then Some (sum_list (map words_of (filter (\<lambda>s. label_of s = l) segs)))
              else None)" for l
    using aggregate_loop_words [OF run, of l]
          sum_list_filter_perm [OF perm, of words_of "\<lambda>s. label_of s = l"]
    by (simp add: dict_get_def)
  have u: "\<forall>s \<in> set segs. seg_speaker s = None \<longrightarrow> label_of s = str ''Unknown''"
    by (simp add: label_of_def format_speaker_def)
  show ?thesis using out d1 d2 t w u by simp
qed

theorem aggregation_sums_witness:
  "list_all label_ok demo_segments \<and>
   (\<exists>out. process_aggregate (\<lambda>x. x) demo_segments = Inr out \<and>
      map_of (speaking_time out) (speaker_prefix @ str ''1'') = Some 4 \<and>
      map_of (speaking_time out) (str ''Unknown'') = Some (3 / 2) \<and>
      map_of (word_count out) (speaker_prefix @ str ''1'') = Some 2 \<and>
      map_of (word_count out) (str ''Unknown'') = Some 1 \<and>
      map_of (word_count out) (str ''Bob'') = None)"
proof -
  have ne: "speaker_prefix @ str ''1'' \<noteq> str ''Unknown''" "str ''Unknown'' \<noteq> speaker_prefix @ str ''1''"
    "speaker_prefix @ str ''1'' \<noteq> str ''Bob''" "str ''Unknown'' \<noteq> str ''Bob''"
    by (simp_all add: speaker_prefix_def str_def)
  have l: "label_of demo_a = speaker_prefix @ str ''1''" "label_of demo_b = str ''Unknown''"
    "label_of demo_c = speaker_prefix @ str ''1''"
    using demo_labels(1) by (simp_all add: demo_segments_def)
  have d: "duration_of demo_a = 3" "duration_of demo_b = 3 / 2" "duration_of demo_c = 1"
    using demo_durations by (simp_all add: demo_segments_def)
  have w: "words_of demo_a = 2" "words_of demo_b = 1" "words_of demo_c = 0"
    using demo_words by (simp_all add: demo_segments_def)
  from aggregation_sums [OF demo_labels(2), of "\<lambda>x. x"] obtain out where
    o: "process_aggregate (\<lambda>x. x) demo_segments = Inr out" and
    t: "\<And>l. map_of (speaking_time out) l =
                  (if \<exists>s \<in> set demo_segments. label_of s = l
                   then Some (foldl (+) 0
                                (map duration_of
                                   (filter (\<lambda>s. label_of s = l)
                                      (sort_key (\<lambda>x. seg_start x) demo_segments))))
                   else None)" and
    c: "\<And>l. map_of (word_count out) l =
                  (if \<exists>s \<in> set demo_segments. label_of s = l
                   then Some (sum_list (map words_of (filter (\<lambda>s. label_of s = l) demo_segments)))
                   else None)"
    by blast
  have "map_of (speaking_time out) (speaker_prefix @ str ''1'') = Some 4"
    unfolding t demo_sorted by (simp add: demo_segments_def l d ne)
  moreover have "map_of (speaking_time out) (str ''Unknown'') = Some (3 / 2)"
    unfolding t demo_sorted by (simp add: demo_segments_def l d ne)
  moreover have "map_of (word_count out) (speaker_prefix @ str ''1'') = Some 2"
    by (simp add: c demo_segments_def l w ne)
  moreover have "map_of (word_count out) (str ''Unknown'') = Some 1"
    by (simp add: c demo_segments_def l w ne)
  moreover have "map_of (word_count out) (str ''Bob'') = None"
    by (simp add: c demo_segments_def l ne)
  ultimately show ?thesis using o demo_labels(2) by blast
qed

text \<open>
  C1 as stated, for every list of segments, fails: the label \<open>SPEAKER_\<close> has no number,
  \<open>int('')\<close> raises \<open>ValueError\<close> inside \<open>format_speaker\<close>, and the pass produces no
  summary at all.
\<close>

theorem aggregation_malformed_label_counterexample:
  "\<not> (\<exists>out. process_aggregate (\<lambda>x. x)
               [\<lparr>seg_start = 0 :: real, seg_end = 1, seg_speaker = Some (str ''SPEAKER_''),
                 seg_text = Some (str ''hi'')\<rparr>] = Inr out)"
  by (simp add: process_aggregate_def format_speaker_empty_number)

text \<open>
  C5 (as amended). For every list of transcript segments on whose speaker labels
  \<open>format_speaker\<close> returns, the pipeline returns the segments sorted in ascending order
  of their start (a stable rearrangement of the input), and \<open>transcript_with_speakers\<close>
  is the newline-join, in that order, of one line \<open>[label]: text\<close> per segment, with the
  formatted speaker and the stripped text.
\<close>

theorem transcript_sorted_lines:
  assumes "list_all label_ok segs"
  shows "\<exists>out. process_aggregate val segs = Inr out \<and>
           segments out = sort_key (\<lambda>x. val (seg_start x)) segs \<and>
           sorted (map (\<lambda>x. val (seg_start x)) (segments out)) \<and>
           mset (segments out) = mset segs \<and>
           (\<forall>s \<in> set (segments out). format_speaker (seg_speaker s) = Inr (label_of s)) \<and>
           transcript_with_speakers out =
             join [10] (map (\<lambda>s. str ''['' @ label_of s @ str '']: '' @
                                   strip (seg_text_or_empty s)) (segments out))"
proof -
  let ?init = "\<lparr>speakers_time = [], speakers_words = [], transcript_lines = []\<rparr>"
  let ?sorted = "sort_key (\<lambda>x. val (seg_start x)) segs"
  from process_aggregate_result [OF assms, of val] obtain st where
    run: "aggregate_loop ?sorted ?init = Inr st" and
    out: "process_aggregate val segs =
            Inr \<lparr>segments = ?sorted,
                 transcript_with_speakers = join [10] (transcript_lines st),
                 speaking_time = speakers_time st,
                 word_count = speakers_words st\<rparr>"
    by blast
  have lines: "transcript_lines st = map line_of ?sorted"
    using aggregate_loop_lines [OF run] by simp
  have lo: "line_of = (\<lambda>s :: 'a segment. str ''['' @ label_of s @ str '']: '' @ strip (seg_text_or_empty s))"
    by (simp add: fun_eq_iff line_of_def)
  have ok: "\<forall>s \<in> set ?sorted. format_speaker (seg_speaker s) = Inr (label_of s)"
    using assms by (auto simp: list_all_iff label_ok_def label_of_def split: sum.splits)
  have srt: "sorted (map (\<lambda>x. val (seg_start x)) ?sorted)" by (rule sorted_sort_key)
  have perm: "mset ?sorted = mset segs" by simp
  show ?thesis using out lines ok srt perm unfolding lo by simp
qed

theorem transcript_sorted_lines_witness:
  "list_all label_ok demo_segments \<and>
   (\<exists>out. process_aggregate (\<lambda>x. x) demo_segments = Inr out \<and>
      segments out = [demo_b, demo_a, demo_c] \<and>
      transcript_with_speakers out =
        str ''[Unknown]: hi'' @ [10] @
        str ''['' @ speaker_prefix @ str ''1]: hello  world'' @ [10] @
        str ''['' @ speaker_prefix @ str ''1]: '')"
proof -
  have l: "label_of demo_a = speaker_prefix @ str ''1''" "label_of demo_b = str ''Unknown''"
    "label_of demo_c = speaker_prefix @ str ''1''"
    using demo_labels(1) by (simp_all add: demo_segments_def)
  have t: "strip (seg_text_or_empty demo_a) = str ''hello  world''"
    "strip (seg_text_or_empty demo_b) = str ''hi''"
    "strip (seg_text_or_empty demo_c) = []"
    by (simp_all add: demo_a_def demo_b_def demo_c_def seg_text_or_empty_def strip_def str_def
                      isspace_def)
  from transcript_sorted_lines [OF demo_labels(2), of "\<lambda>x. x"] obtain out where
    o: "process_aggregate (\<lambda>x. x) demo_segments = Inr out" and
    s: "segments out = sort_key (\<lambda>x. seg_start x) demo_segments" and
    j: "transcript_with_speakers out =
             join [10] (map (\<lambda>s. str ''['' @ label_of s @ str '']: '' @
                                   strip (seg_text_or_empty s)) (segments out))"
    by blast
  have s': "segments out = [demo_b, demo_a, demo_c]" using s by (simp add: demo_sorted)
  have "transcript_with_speakers out =
        str ''[Unknown]: hi'' @ [10] @
        str ''['' @ speaker_prefix @ str ''1]: hello  world'' @ [10] @
        str ''['' @ speaker_prefix @ str ''1]: ''"
    unfolding j s' by (simp add: l t str_def)
  then show ?thesis using o s' demo_labels(2) by blast
qed

text \<open>
  C5 as stated, for every list of segments, fails: with a label \<open>SPEAKER_A\<close> in the list
  \<open>format_speaker\<close> raises \<open>ValueError\<close> and \<open>process\<close> returns neither segments nor a
  transcript.
\<close>

theorem transcript_malformed_label_counterexample:
  "\<not> (\<exists>out. process_aggregate (\<lambda>x. x)
               [\<lparr>seg_start = 3 :: real, seg_end = 4, seg_speaker = Some (str ''SPEAKER_A''),
                 seg_text = Some (str ''b'')\<rparr>,
                \<lparr>seg_start = 1, seg_end = 2, seg_speaker = Some (str ''SPEAKER_00''),
                 seg_text = Some (str ''a'')\<rparr>] = Inr out)"
  by (simp add: process_aggregate_def format_speaker_letter fs00 Let_def)

text \<open>
  C10. Whenever the aggregation pass produces its two dictionaries, \<open>speaking_time\<close> and
  \<open>word_count\<close> have the same keys (in the same insertion order, each once), and each of
  them is empty if and only if the segment list is empty. The pass produces them exactly
  for the lists on whose labels \<open>format_speaker\<close> returns.
\<close>

theorem summary_key_sets:
  "(\<forall>out. process_aggregate val segs = Inr out \<longrightarrow>
      map fst (speaking_time out) = map fst (word_count out) \<and>
      distinct (map fst (speaking_time out)) \<and>
      (speaking_time out = [] \<longleftrightarrow> segs = []) \<and>
      (word_count out = [] \<longleftrightarrow> segs = [])) \<and>
   ((\<exists>out. process_aggregate val segs = Inr out) \<longleftrightarrow> list_all label_ok segs)"
proof -
  let ?init = "\<lparr>speakers_time = [], speakers_words = [], transcript_lines = []\<rparr>"
  let ?sorted = "sort_key (\<lambda>x. val (seg_start x)) segs"
  have a: "map fst (speaking_time out) = map fst (word_count out) \<and>
      distinct (map fst (speaking_time out)) \<and>
      (speaking_time out = [] \<longleftrightarrow> segs = []) \<and>
      (word_count out = [] \<longleftrightarrow> segs = [])" if p: "process_aggregate val segs = Inr out" for out
  proof -
    from p obtain st where run: "aggregate_loop ?sorted ?init = Inr st"
      and t: "speaking_time out = speakers_time st" and w: "word_count out = speakers_words st"
      by (auto simp: process_aggregate_def Let_def split: sum.splits)
    have k: "map fst (speakers_time st) = map fst (speakers_words st)"
      using aggregate_loop_keys [OF run] by simp
    have d: "distinct (map fst (speakers_time st))"
      using aggregate_loop_distinct [OF run] by simp
    have e: "speakers_time st = [] \<longleftrightarrow> segs = []"
    proof
      assume em: "speakers_time st = []"
      show "segs = []"
      proof (rule ccontr)
        assume "segs \<noteq> []"
        then obtain x where "x \<in> set segs" by (cases segs) auto
        then have x: "x \<in> set ?sorted" by simp
        then have "map_of (speakers_time st) (label_of x) \<noteq> None"
          using aggregate_loop_time [OF run, of "label_of x"] by auto
        then show False using em by simp
      qed
    next
      assume "segs = []"
      then show "speakers_time st = []" using run by auto
    qed
    have e2: "speakers_words st = [] \<longleftrightarrow> speakers_time st = []"
      using k by (metis map_is_Nil_conv)
    show ?thesis using k d e e2 t w by simp
  qed
  have b: "list_all label_ok segs \<Longrightarrow> \<exists>out. process_aggregate val segs = Inr out"
    using process_aggregate_result by blast
  have c: "list_all label_ok segs" if "\<exists>out. process_aggregate val segs = Inr out"
  proof -
    from that obtain st where "aggregate_loop ?sorted ?init = Inr st"
      by (auto simp: process_aggregate_def Let_def split: sum.splits)
    then have "list_all label_ok ?sorted" by (rule aggregate_loop_labels)
    then show ?thesis by (simp add: list_all_iff)
  qed
  show ?thesis using a b c by blast
qed

theorem summary_key_sets_witness:
  "list_all label_ok demo_segments \<and>
   (\<exists>out. process_aggregate (\<lambda>x. x) demo_segments = Inr out \<and>
      map fst (speaking_time out) = map fst (word_count out) \<and>
      speaking_time out \<noteq> [] \<and> word_count out \<noteq> []) \<and>
   (\<exists>out. process_aggregate (\<lambda>x. x) ([] :: real segment list) = Inr out \<and>
      speaking_time out = [] \<and> word_count out = [])"
proof -
  have ne: "demo_segments \<noteq> []" by (simp add: demo_segments_def)
  have "\<exists>out. process_aggregate (\<lambda>x. x) demo_segments = Inr out \<and>
      map fst (speaking_time out) = map fst (word_count out) \<and>
      speaking_time out \<noteq> [] \<and> word_count out \<noteq> []"
    using summary_key_sets [of "\<lambda>x. x" demo_segments] demo_labels(2) ne by blast
  moreover have "\<exists>out. process_aggregate (\<lambda>x. x) ([] :: real segment list) = Inr out \<and>
      speaking_time out = [] \<and> word_count out = []"
  proof -
    have "list_all label_ok ([] :: real segment list)" by simp
    then show ?thesis using summary_key_sets [of "\<lambda>x. x" "[] :: real segment list"] by blast
  qed
  ultimately show ?thesis using demo_labels(2) by blast
qed

subsection \<open>Speaker percentages\<close>

lemma pct_of_value:
  "pct_of time_sec total_time = Inr (if total_time > 0 then time_sec / total_time * 100 else 0)"
  by (simp add: pct_of_def truediv_def)

lemma speaker_info_loop_ok:
  "\<exists>ls. speaker_info_loop xs total_time sp_words = Inr ls \<and>
        map sl_speaker ls = map fst xs \<and>
        map sl_pct ls = map (\<lambda>x. if total_time > 0 then snd x / total_time * 100 else 0) xs"
  by (induction xs) (auto simp: pct_of_value)

lemma print_summary_loop_ok:
  "\<exists>ps. print_summary_loop xs total_time sp_words = Inr ps \<and>
        map fst ps = map fst xs \<and>
        map (\<lambda>p. fst (snd (snd p))) ps =
          map (\<lambda>x. if total_time > 0 then snd x / total_time * 100 else 0) xs"
  by (induction xs) (auto simp: pct_of_value)

text \<open>
  C4. The percentage is guarded against a zero total. In \<open>summarize_with_diarization\<close>
  the total is 1 for an empty \<open>speaking_time\<close> map; the division is evaluated only when
  the total is strictly positive, so for every total the percentage is a value and never
  \<open>ZeroDivisionError\<close>; for every \<open>speaker_summary\<close> the speaker lines are computed
  without an exception, one per speaker, and when the total is not strictly positive every
  percentage is 0. The speaker summary of \<open>print_results\<close> has the same guard.
\<close>

theorem percentage_guard:
  "total_time_of [] = 1 \<and>
   pct_of time_sec total_time =
     Inr (if total_time > 0 then time_sec / total_time * 100 else 0) \<and>
   (\<exists>ls. speaker_info_lines summary = Inr ls \<and>
      length ls = length (case ss_speaking_time summary of None \<Rightarrow> [] | Some d \<Rightarrow> d) \<and>
      (total_time_of (case ss_speaking_time summary of None \<Rightarrow> [] | Some d \<Rightarrow> d) \<le> 0
         \<longrightarrow> (\<forall>l \<in> set ls. sl_pct l = 0))) \<and>
   (\<exists>ps. print_speaker_summary ft = Inr ps \<and>
      length ps = length (speaking_time ft) \<and>
      (sum_list (map snd (speaking_time ft)) \<le> 0
         \<longrightarrow> (\<forall>p \<in> set ps. fst (snd (snd p)) = 0)))"
proof -
  let ?times = "case ss_speaking_time summary of None \<Rightarrow> [] | Some d \<Rightarrow> d"
  let ?words = "case ss_word_count summary of None \<Rightarrow> [] | Some d \<Rightarrow> d"
  have a: "total_time_of [] = 1" by (simp add: total_time_of_def)
  obtain ls where ls: "speaker_info_loop (sort_key (\<lambda>x. - snd x) ?times) (total_time_of ?times) ?words = Inr ls"
    and lp: "map sl_pct ls = map (\<lambda>x. if total_time_of ?times > 0 then snd x / total_time_of ?times * 100 else 0)
               (sort_key (\<lambda>x. - snd x) ?times)"
    using speaker_info_loop_ok by blast
  have l1: "speaker_info_lines summary = Inr ls"
    using ls by (simp add: speaker_info_lines_def Let_def)
  have l2: "length ls = length ?times"
    using arg_cong [OF lp, of length] by simp
  have l3: "\<forall>l \<in> set ls. sl_pct l = 0" if "total_time_of ?times \<le> 0"
  proof -
    have "map sl_pct ls = map (\<lambda>x. 0) (sort_key (\<lambda>x. - snd x) ?times)"
      using lp that by simp
    then have "set (map sl_pct ls) \<subseteq> {0}" by auto
    then show ?thesis by auto
  qed
  obtain ps where ps: "print_summary_loop (sort (speaking_time ft))
                         (sum_list (map snd (speaking_time ft))) (word_count ft) = Inr ps"
    and pp: "map (\<lambda>p. fst (snd (snd p))) ps =
          map (\<lambda>x. if sum_list (map snd (speaking_time ft)) > 0
                    then snd x / sum_list (map snd (speaking_time ft)) * 100 else 0)
              (sort (speaking_time ft))"
    using print_summary_loop_ok by blast
  have p1: "print_speaker_summary ft = Inr ps"
    using ps by (simp add: print_speaker_summary_def Let_def)
  have p2: "length ps = length (speaking_time ft)"
    using arg_cong [OF pp, of length] by simp
  have p3: "\<forall>p \<in> set ps. fst (snd (snd p)) = 0" if "sum_list (map snd (speaking_time ft)) \<le> 0"
  proof -
    have "map (\<lambda>p. fst (snd (snd p))) ps = map (\<lambda>x. 0) (sort (speaking_time ft))"
      using pp that by simp
    then have "set (map (\<lambda>p. fst (snd (snd p))) ps) \<subseteq> {0}" by auto
    then show ?thesis by auto
  qed
  show ?thesis using a pct_of_value l1 l2 l3 p1 p2 p3 by blast
qed

theorem percentage_guard_witness:
  "total_time_of [(str ''A'', 0), (str ''B'', 0)] \<le> 0 \<and>
   pct_of 5 0 = Inr 0 \<and>
   (\<exists>ls. speaker_info_lines
            \<lparr>ss_speaking_time = Some [(str ''A'', 0), (str ''B'', 0)],
             ss_word_count = Some [(str ''A'', 3), (str ''B'', 1)]\<rparr> = Inr ls \<and>
         length ls = 2 \<and> (\<forall>l \<in> set ls. sl_pct l = 0)) \<and>
   sum_list (map snd [(str ''A'', 0 :: real)]) \<le> 0 \<and>
   (\<exists>ps. print_speaker_summary
            \<lparr>segments = [], transcript_with_speakers = [],
             speaking_time = [(str ''A'', 0)], word_count = [(str ''A'', 3)]\<rparr> = Inr ps \<and>
         length ps = 1 \<and> (\<forall>p \<in> set ps. fst (snd (snd p)) = 0))"
  using percentage_guard [where time_sec = 5 and total_time = 0 and
      summary = "\<lparr>ss_speaking_time = Some [(str ''A'', 0), (str ''B'', 0)],
                 ss_word_count = Some [(str ''A'', 3), (str ''B'', 1)]\<rparr>" and
      ft = "\<lparr>segments = [], transcript_with_speakers = [],
             speaking_time = [(str ''A'', 0)], word_count = [(str ''A'', 3)]\<rparr>"]
  by (simp add: total_time_of_def numeral_2_eq_2)

subsection \<open>Meeting types\<close>

lemma meeting_type_keys: "map fst MEETING_TYPES = [0, 1, 2, 3, 4, 5, 6, 7, 8, 9, 10, 11]"
  by (simp add: MEETING_TYPES_def)

lemma meeting_type_positive:
  "filter (\<lambda>(num, info). num > 0) MEETING_TYPES =
     [(1, meeting_type_1), (2, meeting_type_2), (3, meeting_type_3), (4, meeting_type_4),
      (5, meeting_type_5), (6, meeting_type_6), (7, meeting_type_7), (8, meeting_type_8),
      (9, meeting_type_9), (10, meeting_type_10), (11, meeting_type_11)]"
  by (simp add: MEETING_TYPES_def)

lemma meeting_type_0_entry: "map_of MEETING_TYPES 0 = Some meeting_type_0"
  by (simp add: MEETING_TYPES_def)

lemma meeting_type_11_entry: "map_of MEETING_TYPES 11 = Some meeting_type_11"
  by (simp add: MEETING_TYPES_def)

lemma meeting_type_in_range:
  assumes "1 \<le> k" "k \<le> 11"
  shows "\<exists>info. map_of MEETING_TYPES k = Some info \<and> (k, info) \<in> set MEETING_TYPES"
proof -
  have "k \<in> set (map fst MEETING_TYPES)"
    unfolding meeting_type_keys using assms by (simp, presburger)
  then obtain info where "map_of MEETING_TYPES k = Some info"
    by (metis map_of_eq_None_iff not_None_eq set_map)
  then show ?thesis by (blast dest: map_of_SomeD)
qed

lemma specific_prompt_embeds:
  "sublist (mt_thai info) (specific_prompt info) \<and>
   sublist (mt_name info) (specific_prompt info) \<and>
   sublist (mt_structure info) (specific_prompt info)"
proof -
  have a: "sublist (mt_thai info) (specific_prompt info)"
    unfolding specific_prompt_def sublist_def by (metis append.assoc)
  have b: "sublist (mt_name info) (specific_prompt info)"
    unfolding specific_prompt_def sublist_def by (metis append.assoc)
  have c: "sublist (mt_structure info) (specific_prompt info)"
    unfolding specific_prompt_def sublist_def by (metis append.assoc)
  show ?thesis using a b c by blast
qed

lemma get_meeting_type_prompt_specific:
  "meeting_type_id \<noteq> 0 \<Longrightarrow>
   get_meeting_type_prompt meeting_type_id =
     Inr (specific_prompt (case map_of MEETING_TYPES meeting_type_id of
                             None \<Rightarrow> meeting_type_11 | Some info \<Rightarrow> info))"
  by (simp add: get_meeting_type_prompt_def dict_getitem_def meeting_type_11_entry dict_get_def
           split: option.splits)

lemma sublist_under_prefix: "sublist x ys \<Longrightarrow> sublist x (ps @ ys)"
  unfolding sublist_def by (metis append.assoc)

lemma sublist_join: "x \<in> set xs \<Longrightarrow> sublist x (join sep xs)"
proof (induction sep xs rule: join.induct)
  case (1 sep)
  then show ?case by simp
next
  case (2 sep y)
  then show ?case by simp
next
  case (3 sep y z zs)
  show ?case
  proof (cases "x = y")
    case True
    then show ?thesis by simp
  next
    case False
    with 3 have "sublist x (join sep (z # zs))" by simp
    then have "sublist x (sep @ join sep (z # zs))" by (rule sublist_under_prefix)
    then have "sublist x (y @ sep @ join sep (z # zs))" by (rule sublist_under_prefix)
    then show ?thesis by simp
  qed
qed

lemma meeting_type_values:
  "k \<in> set [1, 2, 3, 4, 5, 6, 7, 8, 9, 10, 11] \<Longrightarrow> map_of MEETING_TYPES k = Some info \<Longrightarrow>
     info \<in> set [meeting_type_1, meeting_type_2, meeting_type_3, meeting_type_4, meeting_type_5,
               meeting_type_6, meeting_type_7, meeting_type_8, meeting_type_9, meeting_type_10,
               meeting_type_11]"
  by (auto simp: MEETING_TYPES_def)

lemma auto_detect_prompt:
  "get_meeting_type_prompt 0 =
     Inr (auto_detect_heading @
          join [10] (map (\<lambda>info. str ''| '' @ mt_name info @ str '' | '' @ mt_structure info @ str '' |'')
            [meeting_type_1, meeting_type_2, meeting_type_3, meeting_type_4, meeting_type_5,
               meeting_type_6, meeting_type_7, meeting_type_8, meeting_type_9, meeting_type_10,
               meeting_type_11]))"
  unfolding get_meeting_type_prompt_def meeting_type_positive
  by (simp add: table_row_def del: join.simps)

lemma auto_detect_prompt_text:
  "get_meeting_type_prompt 0 =
     Inr
       [42, 42, 3586, 3633, 3657, 3609, 3605, 3629, 3609, 58, 42, 42, 10, 49, 46, 32, 3623,
        3636, 3648, 3588, 3619, 3634, 3632, 3627, 3660, 3586, 3657, 3629, 3617, 3641, 3621,
        3612, 3641, 3657, 3614, 3641, 3604, 3648, 3614, 3639, 3656, 3629, 3619, 3632, 3610,
        3640, 3610, 3607, 3610, 3634, 3607, 32, 40, 3611, 3619, 3632, 3608, 3634, 3609, 47,
        3612, 3641, 3657, 3609, 3635, 3648, 3626, 3609, 3629, 47, 3612, 3641, 3657, 3648,
        3586, 3657, 3634, 3619, 3656, 3623, 3617, 41, 10, 50, 46, 32, 3623, 3636, 3648,
        3588, 3619, 3634, 3632, 3627, 3660, 3648, 3609, 3639, 3657, 3629, 3627, 3634, 3648,
        3614, 3639, 3656, 3629, 3619, 3632, 3610, 3640, 3611, 3619, 3632, 3648, 3616, 3607,
        3585, 3634, 3619, 3611, 3619, 3632, 3594, 3640, 3617, 10, 51, 46, 32, 3626, 3619,
        3640, 3611, 3605, 3634, 3617, 3650, 3588, 3619, 3591, 3626, 3619, 3657, 3634, 3591,
        3607, 3637, 3656, 3648, 3627, 3617, 3634, 3632, 3626, 3617, 10, 10, 42, 42, 3611,
        3619, 3632, 3648, 3616, 3607, 3585, 3634, 3619, 3611, 3619, 3632, 3594, 3640, 3617,
        58, 42, 42, 10, 124, 32, 3611, 3619, 3632, 3648, 3616, 3607, 32, 124, 32, 3650,
        3588, 3619, 3591, 3626, 3619, 3657, 3634, 3591, 32, 124, 10, 124, 45, 45, 45, 45,
        45, 45, 45, 45, 124, 45, 45, 45, 45, 45, 45, 45, 45, 45, 45, 124, 10, 124, 32, 83,
        104, 97, 114, 101, 104, 111, 108, 100, 101, 114, 32, 77, 101, 101, 116, 105, 110,
        103, 32, 124, 32, 3623, 3634, 3619, 3632, 32, 8594, 32, 3617, 3605, 3636, 32, 8594,
        32, 3648, 3591, 3636, 3609, 3611, 3633, 3609, 3612, 3621, 32, 8594, 32, 3586, 3657,
        3629, 3626, 3619, 3640, 3611, 32, 124, 10, 124, 32, 66, 111, 97, 114, 100, 32, 77,
        101, 101, 116, 105, 110, 103, 32, 124, 32, 3609, 3650, 3618, 3610, 3634, 3618, 32,
        8594, 32, 3585, 3634, 3619, 3629, 3609, 3640, 3617, 3633, 3605, 3636, 32, 8594, 32,
        3617, 3605, 3636, 3588, 3603, 3632, 3585, 3619, 3619, 3617, 3585, 3634, 3619, 32,
        124, 10, 124, 32, 80, 108, 97, 110, 110, 105, 110, 103, 32, 77, 101, 101, 116, 105,
        110, 103, 32, 124, 32, 3648, 3611, 3657, 3634, 3627, 3617, 3634, 3618, 32, 8594, 32,
        3649, 3612, 3609, 3591, 3634, 3609, 32, 8594, 32, 3652, 3607, 3617, 3660, 3652,
        3621, 3609, 3660, 32, 8594, 32, 3612, 3641, 3657, 3619, 3633, 3610, 3612, 3636,
        3604, 3594, 3629, 3610, 32, 8594, 32, 3588, 3623, 3634, 3617, 3648, 3626, 3637,
        3656, 3618, 3591, 32, 124, 10, 124, 32, 80, 114, 111, 103, 114, 101, 115, 115, 32,
        85, 112, 100, 97, 116, 101, 32, 124, 32, 3626, 3606, 3634, 3609, 3632, 3650, 3588,
        3619, 3591, 3585, 3634, 3619, 32, 8594, 32, 3588, 3623, 3634, 3617, 3588, 3639,
        3610, 3627, 3609, 3657, 3634, 32, 8594, 32, 3611, 3633, 3597, 3627, 3634, 32, 8594,
        32, 3649, 3609, 3623, 3607, 3634, 3591, 3649, 3585, 3657, 32, 8594, 32, 3591, 3634,
        3609, 3606, 3633, 3604, 3652, 3611, 32, 124, 10, 124, 32, 83, 116, 114, 97, 116,
        101, 103, 121, 32, 77, 101, 101, 116, 105, 110, 103, 32, 124, 32, 3607, 3636, 3624,
        3607, 3634, 3591, 3608, 3640, 3619, 3585, 3636, 3592, 32, 8594, 32, 3585, 3634,
        3619, 3623, 3636, 3648, 3588, 3619, 3634, 3632, 3627, 3660, 32, 8594, 32, 3585,
        3621, 3618, 3640, 3607, 3608, 3660, 32, 8594, 32, 65, 99, 116, 105, 111, 110, 32,
        80, 108, 97, 110, 32, 124, 10, 124, 32, 73, 110, 99, 105, 100, 101, 110, 116, 32,
        82, 101, 118, 105, 101, 119, 32, 124, 32, 3619, 3634, 3618, 3621, 3632, 3648, 3629,
        3637, 3618, 3604, 3611, 3633, 3597, 3627, 3634, 32, 8594, 32, 3626, 3634, 3648,
        3627, 3605, 3640, 32, 8594, 32, 3612, 3621, 3585, 3619, 3632, 3607, 3610, 32, 8594,
        32, 3649, 3609, 3623, 3607, 3634, 3591, 3649, 3585, 3657, 3652, 3586, 32, 8594, 32,
        3585, 3634, 3619, 3611, 3657, 3629, 3591, 3585, 3633, 3609, 32, 124, 10, 124, 32,
        67, 108, 105, 101, 110, 116, 32, 77, 101, 101, 116, 105, 110, 103, 32, 124, 32,
        3586, 3657, 3629, 3648, 3626, 3609, 3629, 32, 8594, 32, 70, 101, 101, 100, 98, 97,
        99, 107, 32, 8594, 32, 3586, 3657, 3629, 3605, 3585, 3621, 3591, 32, 8594, 32, 78,
        101, 120, 116, 32, 83, 116, 101, 112, 115, 32, 124, 10, 124, 32, 87, 111, 114, 107,
        115, 104, 111, 112, 32, 124, 32, 3627, 3633, 3623, 3586, 3657, 3629, 32, 8594, 32,
        3648, 3609, 3639, 3657, 3629, 3627, 3634, 3626, 3635, 3588, 3633, 3597, 32, 8594,
        32, 3610, 3607, 3648, 3619, 3637, 3618, 3609, 32, 8594, 32, 65, 99, 116, 105, 111,
        110, 32, 73, 116, 101, 109, 115, 32, 124, 10, 124, 32, 69, 120, 101, 99, 117, 116,
        105, 118, 101, 32, 77, 101, 101, 116, 105, 110, 103, 32, 124, 32, 3611, 3619, 3632,
        3648, 3604, 3655, 3609, 3626, 3635, 3588, 3633, 3597, 32, 8594, 32, 3585, 3634,
        3619, 3605, 3633, 3604, 3626, 3636, 3609, 3651, 3592, 32, 8594, 32, 3617, 3605,
        3636, 32, 8594, 32, 3612, 3641, 3657, 3619, 3633, 3610, 3612, 3636, 3604, 3594,
        3629, 3610, 32, 124, 10, 124, 32, 84, 101, 97, 109, 32, 77, 101, 101, 116, 105, 110,
        103, 32, 124, 32, 3629, 3633, 3614, 3648, 3604, 3605, 3591, 3634, 3609, 32, 8594,
        32, 3585, 3634, 3619, 3617, 3629, 3610, 3627, 3617, 3634, 3618, 32, 8594, 32, 3611,
        3633, 3597, 3627, 3634, 32, 8594, 32, 3626, 3636, 3656, 3591, 3607, 3637, 3656,
        3605, 3657, 3629, 3591, 3607, 3635, 32, 124, 10, 124, 32, 71, 101, 110, 101, 114,
        97, 108, 32, 77, 101, 101, 116, 105, 110, 103, 32, 124, 32, 3623, 3634, 3619, 3632,
        32, 8594, 32, 3611, 3619, 3632, 3648, 3604, 3655, 3609, 3627, 3634, 3619, 3639,
        3629, 32, 8594, 32, 3586, 3657, 3629, 3648, 3626, 3609, 3629, 3649, 3609, 3632, 32,
        8594, 32, 3617, 3605, 3636, 32, 124]"
  unfolding auto_detect_prompt
  by (simp add: auto_detect_heading_def str_def meeting_type_1_def meeting_type_2_def
        meeting_type_3_def meeting_type_4_def meeting_type_5_def meeting_type_6_def
        meeting_type_7_def meeting_type_8_def meeting_type_9_def meeting_type_10_def
        meeting_type_11_def)

lemma specific_prompt_text:
  "meeting_type_id \<noteq> 0 \<Longrightarrow> map_of MEETING_TYPES meeting_type_id = Some info \<Longrightarrow>
   get_meeting_type_prompt meeting_type_id =
     Inr (type_label @ mt_thai info @ str '' ('' @ mt_name info @ str '')'' @ [10] @
          structure_label @ mt_structure info @ closing_instruction)"
  using get_meeting_type_prompt_specific [of meeting_type_id] by (simp add: specific_prompt_def)



lemma board_meeting_prompt_text:
  "type_label @ mt_thai meeting_type_2 @ str '' ('' @ mt_name meeting_type_2 @
     str '')'' @ [10] @ structure_label @ mt_structure meeting_type_2 @ closing_instruction =
     [42, 42, 3611, 3619, 3632, 3648, 3616, 3607, 3585, 3634, 3619, 3611, 3619, 3632,
        3594, 3640, 3617, 58, 42, 42, 32, 3611, 3619, 3632, 3594, 3640, 3617, 3588, 3603,
        3632, 3585, 3619, 3619, 3617, 3585, 3634, 3619, 32, 40, 66, 111, 97, 114, 100, 32,
        77, 101, 101, 116, 105, 110, 103, 41, 10, 42, 42, 3650, 3588, 3619, 3591, 3626,
        3619, 3657, 3634, 3591, 3585, 3634, 3619, 3626, 3619, 3640, 3611, 58, 42, 42, 32,
        3609, 3650, 3618, 3610, 3634, 3618, 32, 8594, 32, 3585, 3634, 3619, 3629, 3609,
        3640, 3617, 3633, 3605, 3636, 32, 8594, 32, 3617, 3605, 3636, 3588, 3603, 3632,
        3585, 3619, 3619, 3617, 3585, 3634, 3619, 10, 10, 3626, 3619, 3640, 3611, 3648,
        3609, 3639, 3657, 3629, 3627, 3634, 3605, 3634, 3617, 3650, 3588, 3619, 3591, 3626,
        3619, 3657, 3634, 3591, 3586, 3657, 3634, 3591, 3605, 3657, 3609, 3629, 3618, 3656,
        3634, 3591, 3621, 3632, 3648, 3629, 3637, 3618, 3604]"
  by (simp add: type_label_def structure_label_def closing_instruction_def meeting_type_2_def
                str_def)

text \<open>
  C2. \<open>MEETING_TYPES\<close> has exactly twelve entries, keyed by the integers 0 to 11, and
  selects the prompt in two modes. For \<open>meeting_type_id = 0\<close> the prompt is the
  auto-detect heading followed by a table of exactly eleven rows, one
  \<open>| name | structure |\<close> for each of the entries with keys 1 to 11 in that order, so
  the name and the structure of each of these entries occur in the prompt. For each
  \<open>meeting_type_id\<close> from 1 to 11 the prompt is built from that single entry: its Thai
  name, its English name in brackets and its structure, between the fixed labels.
\<close>

theorem meeting_type_modes:
  "length MEETING_TYPES = 12 \<and>
   map fst MEETING_TYPES = [0, 1, 2, 3, 4, 5, 6, 7, 8, 9, 10, 11] \<and>
   map (map_of MEETING_TYPES) [1, 2, 3, 4, 5, 6, 7, 8, 9, 10, 11] =
     map Some [meeting_type_1, meeting_type_2, meeting_type_3, meeting_type_4, meeting_type_5,
               meeting_type_6, meeting_type_7, meeting_type_8, meeting_type_9, meeting_type_10,
               meeting_type_11] \<and>
   get_meeting_type_prompt 0 =
     Inr (auto_detect_heading @
          join [10] (map (\<lambda>info. str ''| '' @ mt_name info @ str '' | '' @ mt_structure info @ str '' |'')
            [meeting_type_1, meeting_type_2, meeting_type_3, meeting_type_4, meeting_type_5,
               meeting_type_6, meeting_type_7, meeting_type_8, meeting_type_9, meeting_type_10,
               meeting_type_11])) \<and>
   get_meeting_type_prompt 0 =
     Inr
       [42, 42, 3586, 3633, 3657, 3609, 3605, 3629, 3609, 58, 42, 42, 10, 49, 46, 32, 3623,
        3636, 3648, 3588, 3619, 3634, 3632, 3627, 3660, 3586, 3657, 3629, 3617, 3641, 3621,
        3612, 3641, 3657, 3614, 3641, 3604, 3648, 3614, 3639, 3656, 3629, 3619, 3632, 3610,
        3640, 3610, 3607, 3610, 3634, 3607, 32, 40, 3611, 3619, 3632, 3608, 3634, 3609, 47,
        3612, 3641, 3657, 3609, 3635, 3648, 3626, 3609, 3629, 47, 3612, 3641, 3657, 3648,
        3586, 3657, 3634, 3619, 3656, 3623, 3617, 41, 10, 50, 46, 32, 3623, 3636, 3648,
        3588, 3619, 3634, 3632, 3627, 3660, 3648, 3609, 3639, 3657, 3629, 3627, 3634, 3648,
        3614, 3639, 3656, 3629, 3619, 3632, 3610, 3640, 3611, 3619, 3632, 3648, 3616, 3607,
        3585, 3634, 3619, 3611, 3619, 3632, 3594, 3640, 3617, 10, 51, 46, 32, 3626, 3619,
        3640, 3611, 3605, 3634, 3617, 3650, 3588, 3619, 3591, 3626, 3619, 3657, 3634, 3591,
        3607, 3637, 3656, 3648, 3627, 3617, 3634, 3632, 3626, 3617, 10, 10, 42, 42, 3611,
        3619, 3632, 3648, 3616, 3607, 3585, 3634, 3619, 3611, 3619, 3632, 3594, 3640, 3617,
        58, 42, 42, 10, 124, 32, 3611, 3619, 3632, 3648, 3616, 3607, 32, 124, 32, 3650,
        3588, 3619, 3591, 3626, 3619, 3657, 3634, 3591, 32, 124, 10, 124, 45, 45, 45, 45,
        45, 45, 45, 45, 124, 45, 45, 45, 45, 45, 45, 45, 45, 45, 45, 124, 10, 124, 32, 83,
        104, 97, 114, 101, 104, 111, 108, 100, 101, 114, 32, 77, 101, 101, 116, 105, 110,
        103, 32, 124, 32, 3623, 3634, 3619, 3632, 32, 8594, 32, 3617, 3605, 3636, 32, 8594,
        32, 3648, 3591, 3636, 3609, 3611, 3633, 3609, 3612, 3621, 32, 8594, 32, 3586, 3657,
        3629, 3626, 3619, 3640, 3611, 32, 124, 10, 124, 32, 66, 111, 97, 114, 100, 32, 77,
        101, 101, 116, 105, 110, 103, 32, 124, 32, 3609, 3650, 3618, 3610, 3634, 3618, 32,
        8594, 32, 3585, 3634, 3619, 3629, 3609, 3640, 3617, 3633, 3605, 3636, 32, 8594, 32,
        3617, 3605, 3636, 3588, 3603, 3632, 3585, 3619, 3619, 3617, 3585, 3634, 3619, 32,
        124, 10, 124, 32, 80, 108, 97, 110, 110, 105, 110, 103, 32, 77, 101, 101, 116, 105,
        110, 103, 32, 124, 32, 3648, 3611, 3657, 3634, 3627, 3617, 3634, 3618, 32, 8594, 32,
        3649, 3612, 3609, 3591, 3634, 3609, 32, 8594, 32, 3652, 3607, 3617, 3660, 3652,
        3621, 3609, 3660, 32, 8594, 32, 3612, 3641, 3657, 3619, 3633, 3610, 3612, 3636,
        3604, 3594, 3629, 3610, 32, 8594, 32, 3588, 3623, 3634, 3617, 3648, 3626, 3637,
        3656, 3618, 3591, 32, 124, 10, 124, 32, 80, 114, 111, 103, 114, 101, 115, 115, 32,
        85, 112, 100, 97, 116, 101, 32, 124, 32, 3626, 3606, 3634, 3609, 3632, 3650, 3588,
        3619, 3591, 3585, 3634, 3619, 32, 8594, 32, 3588, 3623, 3634, 3617, 3588, 3639,
        3610, 3627, 3609, 3657, 3634, 32, 8594, 32, 3611, 3633, 3597, 3627, 3634, 32, 8594,
        32, 3649, 3609, 3623, 3607, 3634, 3591, 3649, 3585, 3657, 32, 8594, 32, 3591, 3634,
        3609, 3606, 3633, 3604, 3652, 3611, 32, 124, 10, 124, 32, 83, 116, 114, 97, 116,
        101, 103, 121, 32, 77, 101, 101, 116, 105, 110, 103, 32, 124, 32, 3607, 3636, 3624,
        3607, 3634, 3591, 3608, 3640, 3619, 3585, 3636, 3592, 32, 8594, 32, 3585, 3634,
        3619, 3623, 3636, 3648, 3588, 3619, 3634, 3632, 3627, 3660, 32, 8594, 32, 3585,
        3621, 3618, 3640, 3607, 3608, 3660, 32, 8594, 32, 65, 99, 116, 105, 111, 110, 32,
        80, 108, 97, 110, 32, 124, 10, 124, 32, 73, 110, 99, 105, 100, 101, 110, 116, 32,
        82, 101, 118, 105, 101, 119, 32, 124, 32, 3619, 3634, 3618, 3621, 3632, 3648, 3629,
        3637, 3618, 3604, 3611, 3633, 3597, 3627, 3634, 32, 8594, 32, 3626, 3634, 3648,
        3627, 3605, 3640, 32, 8594, 32, 3612, 3621, 3585, 3619, 3632, 3607, 3610, 32, 8594,
        32, 3649, 3609, 3623, 3607, 3634, 3591, 3649, 3585, 3657, 3652, 3586, 32, 8594, 32,
        3585, 3634, 3619, 3611, 3657, 3629, 3591, 3585, 3633, 3609, 32, 124, 10, 124, 32,
        67, 108, 105, 101, 110, 116, 32, 77, 101, 101, 116, 105, 110, 103, 32, 124, 32,
        3586, 3657, 3629, 3648, 3626, 3609, 3629, 32, 8594, 32, 70, 101, 101, 100, 98, 97,
        99, 107, 32, 8594, 32, 3586, 3657, 3629, 3605, 3585, 3621, 3591, 32, 8594, 32, 78,
        101, 120, 116, 32, 83, 116, 101, 112, 115, 32, 124, 10, 124, 32, 87, 111, 114, 107,
        115, 104, 111, 112, 32, 124, 32, 3627, 3633, 3623, 3586, 3657, 3629, 32, 8594, 32,
        3648, 3609, 3639, 3657, 3629, 3627, 3634, 3626, 3635, 3588, 3633, 3597, 32, 8594,
        32, 3610, 3607, 3648, 3619, 3637, 3618, 3609, 32, 8594, 32, 65, 99, 116, 105, 111,
        110, 32, 73, 116, 101, 109, 115, 32, 124, 10, 124, 32, 69, 120, 101, 99, 117, 116,
        105, 118, 101, 32, 77, 101, 101, 116, 105, 110, 103, 32, 124, 32, 3611, 3619, 3632,
        3648, 3604, 3655, 3609, 3626, 3635, 3588, 3633, 3597, 32, 8594, 32, 3585, 3634,
        3619, 3605, 3633, 3604, 3626, 3636, 3609, 3651, 3592, 32, 8594, 32, 3617, 3605,
        3636, 32, 8594, 32, 3612, 3641, 3657, 3619, 3633, 3610, 3612, 3636, 3604, 3594,
        3629, 3610, 32, 124, 10, 124, 32, 84, 101, 97, 109, 32, 77, 101, 101, 116, 105, 110,
        103, 32, 124, 32, 3629, 3633, 3614, 3648, 3604, 3605, 3591, 3634, 3609, 32, 8594,
        32, 3585, 3634, 3619, 3617, 3629, 3610, 3627, 3617, 3634, 3618, 32, 8594, 32, 3611,
        3633, 3597, 3627, 3634, 32, 8594, 32, 3626, 3636, 3656, 3591, 3607, 3637, 3656,
        3605, 3657, 3629, 3591, 3607, 3635, 32, 124, 10, 124, 32, 71, 101, 110, 101, 114,
        97, 108, 32, 77, 101, 101, 116, 105, 110, 103, 32, 124, 32, 3623, 3634, 3619, 3632,
        32, 8594, 32, 3611, 3619, 3632, 3648, 3604, 3655, 3609, 3627, 3634, 3619, 3639,
        3629, 32, 8594, 32, 3586, 3657, 3629, 3648, 3626, 3609, 3629, 3649, 3609, 3632, 32,
        8594, 32, 3617, 3605, 3636, 32, 124] \<and>
   (\<forall>k. 1 \<le> k \<and> k \<le> 11 \<longrightarrow>
      (\<exists>info p0 p.
         map_of MEETING_TYPES k = Some info \<and>
         get_meeting_type_prompt 0 = Inr p0 \<and>
         sublist (str ''| '' @ mt_name info @ str '' | '' @ mt_structure info @ str '' |'') p0 \<and>
         sublist (mt_name info) p0 \<and>
         sublist (mt_structure info) p0 \<and>
         get_meeting_type_prompt k = Inr p \<and>
         p = type_label @ mt_thai info @ str '' ('' @ mt_name info @ str '')'' @ [10] @
             structure_label @ mt_structure info @ closing_instruction \<and>
         sublist (mt_thai info) p \<and>
         sublist (mt_name info) p \<and>
         sublist (mt_structure info) p))"
proof -
  let ?row = "(\<lambda>info. str ''| '' @ mt_name info @ str '' | '' @ mt_structure info @ str '' |'')"
  let ?entries = "[meeting_type_1, meeting_type_2, meeting_type_3, meeting_type_4, meeting_type_5,
               meeting_type_6, meeting_type_7, meeting_type_8, meeting_type_9, meeting_type_10,
               meeting_type_11]"
  have a: "length MEETING_TYPES = 12" by (simp add: MEETING_TYPES_def)
  have b: "map (map_of MEETING_TYPES) [1, 2, 3, 4, 5, 6, 7, 8, 9, 10, 11] = map Some ?entries"
    by (simp add: MEETING_TYPES_def)
  have d: "\<exists>info p0 p.
         map_of MEETING_TYPES k = Some info \<and>
         get_meeting_type_prompt 0 = Inr p0 \<and>
         sublist (str ''| '' @ mt_name info @ str '' | '' @ mt_structure info @ str '' |'') p0 \<and>
         sublist (mt_name info) p0 \<and>
         sublist (mt_structure info) p0 \<and>
         get_meeting_type_prompt k = Inr p \<and>
         p = type_label @ mt_thai info @ str '' ('' @ mt_name info @ str '')'' @ [10] @
             structure_label @ mt_structure info @ closing_instruction \<and>
         sublist (mt_thai info) p \<and>
         sublist (mt_name info) p \<and>
         sublist (mt_structure info) p" if k: "1 \<le> k \<and> k \<le> 11" for k
  proof -
    from k meeting_type_in_range [of k] obtain info where
      i: "map_of MEETING_TYPES k = Some info" by blast
    have "k \<in> set [1, 2, 3, 4, 5, 6, 7, 8, 9, 10, 11]" using k by (simp, presburger)
    then have mem: "info \<in> set ?entries" using i by (rule meeting_type_values)
    define p0 where "p0 = auto_detect_heading @ join [10] (map ?row ?entries)"
    have "?row info \<in> set (map ?row ?entries)"
      using mem by (simp only: set_map image_eqI)
    then have r: "sublist (?row info) (join [10] (map ?row ?entries))"
      by (rule sublist_join)
    then have r0: "sublist (?row info) p0"
      unfolding p0_def by (rule sublist_under_prefix)
    have n0: "sublist (mt_name info) (?row info)"
      unfolding sublist_def by (metis append.assoc)
    have s0: "sublist (mt_structure info) (?row info)"
      unfolding sublist_def by (metis append.assoc)
    have k0: "k \<noteq> 0" using k by simp
    define p where "p = type_label @ mt_thai info @ str '' ('' @ mt_name info @ str '')'' @ [10] @
             structure_label @ mt_structure info @ closing_instruction"
    have gp: "get_meeting_type_prompt k = Inr p"
      unfolding p_def by (rule specific_prompt_text [OF k0 i])
    have e1: "sublist (mt_thai info) p" unfolding p_def sublist_def by (metis append.assoc)
    have e2: "sublist (mt_name info) p" unfolding p_def sublist_def by (metis append.assoc)
    have e3: "sublist (mt_structure info) p" unfolding p_def sublist_def by (metis append.assoc)
    have g0: "get_meeting_type_prompt 0 = Inr p0"
      unfolding p0_def by (rule auto_detect_prompt)
    show ?thesis
      using i g0 r0 sublist_order.order_trans [OF n0 r0] sublist_order.order_trans [OF s0 r0]
            gp e1 e2 e3 p_def
      by blast
  qed
  show ?thesis
    using a meeting_type_keys b auto_detect_prompt auto_detect_prompt_text d by blast
qed

theorem meeting_type_modes_witness:
  "(1::int) \<le> 2 \<and> (2::int) \<le> 11 \<and>
   map_of MEETING_TYPES 2 = Some meeting_type_2 \<and>
   mt_name meeting_type_2 = str ''Board Meeting'' \<and>
   (\<exists>p0. get_meeting_type_prompt 0 = Inr p0 \<and> sublist (str ''Board Meeting'') p0) \<and>
   get_meeting_type_prompt 2 =
     Inr
       [42, 42, 3611, 3619, 3632, 3648, 3616, 3607, 3585, 3634, 3619, 3611, 3619, 3632,
        3594, 3640, 3617, 58, 42, 42, 32, 3611, 3619, 3632, 3594, 3640, 3617, 3588, 3603,
        3632, 3585, 3619, 3619, 3617, 3585, 3634, 3619, 32, 40, 66, 111, 97, 114, 100, 32,
        77, 101, 101, 116, 105, 110, 103, 41, 10, 42, 42, 3650, 3588, 3619, 3591, 3626,
        3619, 3657, 3634, 3591, 3585, 3634, 3619, 3626, 3619, 3640, 3611, 58, 42, 42, 32,
        3609, 3650, 3618, 3610, 3634, 3618, 32, 8594, 32, 3585, 3634, 3619, 3629, 3609,
        3640, 3617, 3633, 3605, 3636, 32, 8594, 32, 3617, 3605, 3636, 3588, 3603, 3632,
        3585, 3619, 3619, 3617, 3585, 3634, 3619, 10, 10, 3626, 3619, 3640, 3611, 3648,
        3609, 3639, 3657, 3629, 3627, 3634, 3605, 3634, 3617, 3650, 3588, 3619, 3591, 3626,
        3619, 3657, 3634, 3591, 3586, 3657, 3634, 3591, 3605, 3657, 3609, 3629, 3618, 3656,
        3634, 3591, 3621, 3632, 3648, 3629, 3637, 3618, 3604]"
proof -
  have h: "(1::int) \<le> 2 \<and> (2::int) \<le> 11" by simp
  have m: "map_of MEETING_TYPES 2 = Some meeting_type_2" by (simp add: MEETING_TYPES_def)
  have n: "mt_name meeting_type_2 = str ''Board Meeting''" by (simp add: meeting_type_2_def)
  from meeting_type_modes h obtain info p0 p where
    "map_of MEETING_TYPES 2 = Some info" "get_meeting_type_prompt 0 = Inr p0"
    "sublist (mt_name info) p0" "get_meeting_type_prompt 2 = Inr p"
    "p = type_label @ mt_thai info @ str '' ('' @ mt_name info @ str '')'' @ [10] @
             structure_label @ mt_structure info @ closing_instruction"
    by blast
  then show ?thesis using h m n board_meeting_prompt_text by auto
qed



lemma get_meeting_type_prompt_app_no_default:
  assumes "map_of types 11 = None" "meeting_type_id \<noteq> 0"
  shows "get_meeting_type_prompt_app types get_meeting_focus_prompt meeting_type_id =
           Inl (KeyError (str ''11''))"
  using assms
  by (simp add: get_meeting_type_prompt_app_def dict_getitem_def int_text_def digits.simps
                str_def)




subsection \<open>summarize_with_diarization\<close>

lemma speaker_info_lines_total: "\<exists>ls. speaker_info_lines summary = Inr ls"
  using speaker_info_loop_ok by (simp add: speaker_info_lines_def Let_def) blast

lemma get_meeting_type_prompt_total: "\<exists>p. get_meeting_type_prompt meeting_type_id = Inr p"
proof (cases "meeting_type_id = 0")
  case True
  then show ?thesis by (simp add: get_meeting_type_prompt_def Let_def del: join.simps)
next
  case False
  then show ?thesis using get_meeting_type_prompt_specific [of meeting_type_id] by blast
qed

lemma meeting_type_info_total: "\<exists>info. meeting_type_info meeting_type_id = Inr info"
  by (simp add: meeting_type_info_def dict_getitem_def meeting_type_0_entry)

lemma summarize_no_key:
  "api_key = None \<or> api_key = Some [] \<Longrightarrow>
   summarize_with_diarization api_key post transcript summary meeting_type_id language =
     (Inr (JString (str ''Error: NTC_API_KEY not found in environment variables'')), [])"
  by (auto simp: summarize_with_diarization_def)

lemma summarize_reaches_post:
  assumes "api_key \<noteq> None" "api_key \<noteq> Some []"
  shows "\<exists>payload.
           summarize_with_diarization api_key post transcript summary meeting_type_id language =
             ((case post payload of
                 PostFailed m \<Rightarrow> Inr (JString (str ''Error calling NTC API: '' @ m))
               | StatusError m \<Rightarrow> Inr (JString (str ''Error calling NTC API: '' @ m))
               | InvalidJson m \<Rightarrow> Inr (JString (str ''Error calling NTC API: '' @ m))
               | JsonBody result \<Rightarrow>
                   (case response_content result of
                      Inr content \<Rightarrow> Inr content
                    | Inl (KeyError m) \<Rightarrow> Inr (JString (str ''Error parsing response: '' @ m))
                    | Inl (IndexError m) \<Rightarrow> Inr (JString (str ''Error parsing response: '' @ m))
                    | Inl e \<Rightarrow> Inl e)),
              [payload])"
proof -
  obtain ls where a: "speaker_info_lines summary = Inr ls"
    using speaker_info_lines_total by blast
  obtain p where b: "get_meeting_type_prompt meeting_type_id = Inr p"
    using get_meeting_type_prompt_total by blast
  obtain info where c: "meeting_type_info meeting_type_id = Inr info"
    using meeting_type_info_total by blast
  show ?thesis
    using assms by (simp add: summarize_with_diarization_def a b c Let_def)
qed

lemma summarize_request_failure:
  assumes "api_key \<noteq> None" "api_key \<noteq> Some []"
    and "\<forall>payload. post payload = PostFailed m \<or> post payload = StatusError m \<or>
                    post payload = InvalidJson m"
  shows "fst (summarize_with_diarization api_key post transcript summary meeting_type_id language) =
           Inr (JString (str ''Error calling NTC API: '' @ m))"
proof -
  from summarize_reaches_post [OF assms(1,2), of post transcript summary meeting_type_id language]
  obtain payload where
    r: "summarize_with_diarization api_key post transcript summary meeting_type_id language =
             ((case post payload of
                 PostFailed m \<Rightarrow> Inr (JString (str ''Error calling NTC API: '' @ m))
               | StatusError m \<Rightarrow> Inr (JString (str ''Error calling NTC API: '' @ m))
               | InvalidJson m \<Rightarrow> Inr (JString (str ''Error calling NTC API: '' @ m))
               | JsonBody result \<Rightarrow>
                   (case response_content result of
                      Inr content \<Rightarrow> Inr content
                    | Inl (KeyError m) \<Rightarrow> Inr (JString (str ''Error parsing response: '' @ m))
                    | Inl (IndexError m) \<Rightarrow> Inr (JString (str ''Error parsing response: '' @ m))
                    | Inl e \<Rightarrow> Inl e)),
              [payload])"
    by blast
  from assms(3) have "post payload = PostFailed m \<or> post payload = StatusError m \<or>
                    post payload = InvalidJson m" by blast
  then show ?thesis unfolding r by auto
qed

lemma response_missing_choices:
  "response_content (JObject [(str ''error'', JString (str ''overloaded''))]) =
     Inl (KeyError ([39] @ str ''choices'' @ [39]))"
  by (simp add: response_content_def str_def)

lemma response_null_message:
  "response_content
     (JObject [(str ''choices'', JArray [JObject [(str ''message'', JNull)]])]) =
     Inl (TypeError ([39] @ str ''NoneType'' @ [39] @ str '' object is not subscriptable''))"
  by (simp add: response_content_def str_def)

text \<open>
  C7. The claim: \<open>summarize_with_diarization\<close> never raises to its caller on an external
  failure; without an API key it returns the fixed error string and issues no request
  (\<open>summarize_no_key\<close>), a failed request gives a string beginning
  \<open>Error calling NTC API:\<close> (\<open>summarize_request_failure\<close>), and a response without
  \<open>choices[0].message.content\<close> gives a string beginning \<open>Error parsing response:\<close>.
  The last part does not hold of the code: the handler catches \<open>KeyError\<close> and
  \<open>IndexError\<close> only. For the response \<open>{"choices": [{"message": null}]}\<close>, which lacks
  the content, indexing \<open>None\<close> raises \<open>TypeError\<close>, and the exception reaches the caller
  for every transcript, speaker summary, meeting type and language.
\<close>

theorem summarize_null_message_raises:
  "fst (summarize_with_diarization (Some (str ''secret''))
     (\<lambda>payload. JsonBody (JObject [(str ''choices'', JArray [JObject [(str ''message'', JNull)]])]))
     transcript summary meeting_type_id language) =
     Inl (TypeError ([39] @ str ''NoneType'' @ [39] @ str '' object is not subscriptable''))"
proof -
  have k: "Some (str ''secret'') \<noteq> None" "Some (str ''secret'') \<noteq> Some []"
    by (simp_all add: str_def)
  let ?post = "\<lambda>payload :: summary_payload.
      JsonBody (JObject [(str ''choices'', JArray [JObject [(str ''message'', JNull)]])])"
  from summarize_reaches_post [OF k, of ?post transcript summary meeting_type_id language]
  obtain payload where
    r: "summarize_with_diarization (Some (str ''secret'')) ?post
          transcript summary meeting_type_id language =
             ((case ?post payload of
                 PostFailed m \<Rightarrow> Inr (JString (str ''Error calling NTC API: '' @ m))
               | StatusError m \<Rightarrow> Inr (JString (str ''Error calling NTC API: '' @ m))
               | InvalidJson m \<Rightarrow> Inr (JString (str ''Error calling NTC API: '' @ m))
               | JsonBody result \<Rightarrow>
                   (case response_content result of
                      Inr content \<Rightarrow> Inr content
                    | Inl (KeyError m) \<Rightarrow> Inr (JString (str ''Error parsing response: '' @ m))
                    | Inl (IndexError m) \<Rightarrow> Inr (JString (str ''Error parsing response: '' @ m))
                    | Inl e \<Rightarrow> Inl e)),
              [payload])"
    by blast
  have "summarize_with_diarization (Some (str ''secret'')) ?post
          transcript summary meeting_type_id language =
     (Inl (TypeError ([39] @ str ''NoneType'' @ [39] @ str '' object is not subscriptable'')),
      [payload])"
    unfolding r by (simp add: response_null_message)
  then show ?thesis by simp
qed

subsection \<open>The REST endpoint\<close>

lemma unsupported_detail:
  "str ''Unsupported file type. Allowed: '' @ join (str '', '') allowed_extensions =
     str ''Unsupported file type. Allowed: .mp3, .wav, .m4a, .flac, .ogg, .webm, .mp4''"
  by (simp add: allowed_extensions_def str_def)

lemma meeting_type_check_rejects:
  assumes "req_meeting_type_id req < 0 \<or> req_meeting_type_id req > 11"
  shows "transcribe_summarize json_loads mkdtemp write_upload process path_exists rmtree req =
           ([], Raised (HTTPException 400 (str ''meeting_type_id must be between 0 and 11'')))"
  using assms by (auto simp: transcribe_summarize_def)

lemma parse_speaker_names_caught:
  assumes "(\<exists>v. json_loads s = Inr v) \<or> (\<exists>m. json_loads s = Inl (JSONDecodeError m)) \<or>
           (\<exists>m. json_loads s = Inl (TypeError m))"
  shows "\<exists>l. parse_speaker_names json_loads s = Inr l"
  using assms by (auto simp: parse_speaker_names_def split: json.splits)

lemma parse_speaker_names_escapes:
  assumes "json_loads s = Inl e" "\<forall>m. e \<noteq> JSONDecodeError m" "\<forall>m. e \<noteq> TypeError m"
  shows "parse_speaker_names json_loads s = Inl e"
  using assms by (cases e) (simp_all add: parse_speaker_names_def)

lemma extension_check_rejects:
  assumes "0 \<le> req_meeting_type_id req" "req_meeting_type_id req \<le> 11"
    and "parse_speaker_names json_loads (req_speaker_names req) = Inr l"
    and "lower (snd (splitext (req_filename req))) \<notin> set allowed_extensions"
  shows "transcribe_summarize json_loads mkdtemp write_upload process path_exists rmtree req =
           ([], Raised (HTTPException 400
                  (str ''Unsupported file type. Allowed: .mp3, .wav, .m4a, .flac, .ogg, .webm, .mp4'')))"
  using assms by (simp add: transcribe_summarize_def unsupported_detail [symmetric])

lemma loads_error_leaves_handler:
  assumes "0 \<le> req_meeting_type_id req" "req_meeting_type_id req \<le> 11"
    and "json_loads (req_speaker_names req) = Inl e"
    and "\<forall>m. e \<noteq> JSONDecodeError m" "\<forall>m. e \<noteq> TypeError m"
  shows "transcribe_summarize json_loads mkdtemp write_upload process path_exists rmtree req =
           ([], Unhandled e)"
proof -
  have "parse_speaker_names json_loads (req_speaker_names req) = Inl e"
    using assms(3,4,5) by (rule parse_speaker_names_escapes)
  then show ?thesis using assms(1,2) by (simp add: transcribe_summarize_def)
qed

lemma process_upload_status:
  "snd (process_upload write_upload process temp_file meeting_type_id l) \<noteq>
     Raised (HTTPException 400 d)"
  by (simp add: process_upload_def split: sum.splits)

lemma process_upload_write_failure:
  assumes "write_upload temp_file = Inl e"
  shows "process_upload write_upload process temp_file meeting_type_id l =
           ([WriteUpload], Raised (HTTPException 500 (str ''Processing error: '' @ error_text e)))"
  using assms by (simp add: process_upload_def)

lemma accepted_request_not_rejected:
  assumes "0 \<le> req_meeting_type_id req" "req_meeting_type_id req \<le> 11"
    and "lower (snd (splitext (req_filename req))) \<in> set allowed_extensions"
  shows "snd (transcribe_summarize json_loads mkdtemp write_upload process path_exists rmtree
                req) \<noteq> Raised (HTTPException 400 d)"
proof (cases "parse_speaker_names json_loads (req_speaker_names req)")
  case (Inl e)
  then show ?thesis using assms by (simp add: transcribe_summarize_def)
next
  case (Inr l)
  show ?thesis
  proof (cases mkdtemp)
    case (Inl e)
    then show ?thesis using assms Inr by (simp add: transcribe_summarize_def)
  next
    case r: (Inr temp_dir)
    obtain effects result where
      p: "process_upload write_upload process (path_join temp_dir (req_filename req))
            (req_meeting_type_id req) l = (effects, result)"
      by (cases "process_upload write_upload process (path_join temp_dir (req_filename req))
            (req_meeting_type_id req) l") auto
    have "result \<noteq> Raised (HTTPException 400 d)"
      using process_upload_status [of write_upload process
          "path_join temp_dir (req_filename req)" "req_meeting_type_id req" l d] p
      by simp
    then show ?thesis
      using assms Inr r p by (simp add: transcribe_summarize_def split: sum.splits)
  qed
qed

text \<open>
  C6. The check of \<open>meeting_type_id\<close> comes first and rejects with status 400 before anything
  else happens (\<open>meeting_type_check_rejects\<close>). The check of the extension comes after
  \<open>json.loads(speaker_names)\<close>, whose \<open>except\<close> clause catches \<open>JSONDecodeError\<close> and
  \<open>TypeError\<close> only. For the request with \<open>meeting_type_id = 3\<close>, the file \<open>notes.txt\<close>
  and \<open>speaker_names\<close> made of 4301 digits \<open>1\<close>, \<open>json.loads\<close> raises the \<open>ValueError\<close> of
  the digit limit of \<open>int\<close>; the extension \<open>.txt\<close> is not an allowed one, yet the handler
  does not raise the \<open>HTTPException\<close> with status 400: the \<open>ValueError\<close> leaves it, with no
  effect attempted.
\<close>

theorem transcribe_summarize_loads_error_escapes:
  assumes "json_loads (replicate 4301 49) = Inl (ValueError (int_limit_message 4301))"
  shows "lower (snd (splitext (str ''notes.txt''))) = str ''.txt'' \<and>
         str ''.txt'' \<notin> set allowed_extensions \<and>
         transcribe_summarize json_loads mkdtemp write_upload process path_exists rmtree
           \<lparr>req_filename = str ''notes.txt'', req_meeting_type_id = 3,
            req_speaker_names = replicate 4301 49\<rparr> =
           ([], Unhandled (ValueError (int_limit_message 4301)))"
proof -
  have a: "lower (snd (splitext (str ''notes.txt''))) = str ''.txt''"
    by (simp add: splitext_def rfind_def lower_def str_def Let_def)
  have b: "str ''.txt'' \<notin> set allowed_extensions"
    by (simp add: allowed_extensions_def str_def)
  have c: "transcribe_summarize json_loads mkdtemp write_upload process path_exists rmtree
           \<lparr>req_filename = str ''notes.txt'', req_meeting_type_id = 3,
            req_speaker_names = replicate 4301 49\<rparr> =
           ([], Unhandled (ValueError (int_limit_message 4301)))"
    by (rule loads_error_leaves_handler) (simp_all add: assms)
  show ?thesis using a b c by blast
qed

theorem transcribe_summarize_loads_error_escapes_witness:
  "(case int_of_str (replicate 4301 49) of Inl e \<Rightarrow> Inl e | Inr n \<Rightarrow> Inr (JInt n)) =
     Inl (ValueError (int_limit_message 4301)) \<and>
   int_limit_message 4301 =
     str ''Exceeds the limit (4300 digits) for integer string conversion: '' @
     str ''value has 4301 digits; use sys.set_int_max_str_digits() to increase '' @
     str ''the limit'' \<and>
   transcribe_summarize
     (\<lambda>s. case int_of_str s of Inl e \<Rightarrow> Inl e | Inr n \<Rightarrow> Inr (JInt n))
     (Inr (str ''/tmp/tmpq1'')) (\<lambda>p. Inr ()) (\<lambda>p m l. Inr (str ''response''))
     (\<lambda>p. True) (\<lambda>p. Inr ())
     \<lparr>req_filename = str ''notes.txt'', req_meeting_type_id = 3,
      req_speaker_names = replicate 4301 49\<rparr> =
     ([], Unhandled (ValueError (int_limit_message 4301)))"
proof -
  have a: "list_all isdigit (replicate 4301 49)" by (simp add: list_all_iff isdigit_def)
  have b: "length (replicate 4301 (49::nat)) > int_max_str_digits"
    by (simp add: int_max_str_digits_def)
  have h: "(case int_of_str (replicate 4301 49) of Inl e \<Rightarrow> Inl e | Inr n \<Rightarrow> Inr (JInt n)) =
             Inl (ValueError (int_limit_message 4301))"
    using int_of_str_too_long [OF a b] by simp
  have m: "int_limit_message 4301 =
     str ''Exceeds the limit (4300 digits) for integer string conversion: '' @
     str ''value has 4301 digits; use sys.set_int_max_str_digits() to increase '' @
     str ''the limit''"
    by (simp add: int_limit_message_def digits.simps str_def)
  note w = transcribe_summarize_loads_error_escapes
      [of "\<lambda>s. case int_of_str s of Inl e \<Rightarrow> Inl e | Inr n \<Rightarrow> Inr (JInt n)"
          "Inr (str ''/tmp/tmpq1'')" "\<lambda>p. Inr ()" "\<lambda>p m l. Inr (str ''response'')"
          "\<lambda>p. True" "\<lambda>p. Inr ()", OF h]
  show ?thesis using w h m by blast
qed

end
